theory Spec2Isabelle
  imports Main "HOL-Library.AList"
begin

section \<open>Python values used by the services\<close>

text \<open>
  A Python string is modelled as a \<open>string\<close>: the list of its code points, each below
  256 (the Latin-1 range, which is what a \<open>char\<close> holds). \<open>lower\<close> and \<open>strip\<close> follow
  \<open>str.lower()\<close> and \<open>str.strip()\<close> on that range: the capitals are \<open>A\<close> to \<open>Z\<close> and
  U+00C0 to U+00DE without U+00D7, each 32 below its small letter; the white space is
  U+0009 to U+000D, U+001C to U+0020, U+0085 and U+00A0.
  An exception is modelled by the text \<open>str(e)\<close> the handlers log or return, so a
  fallible call has the type \<open>string + 'a\<close> with \<open>Inl\<close> the raised exception.
\<close>

definition lower_char :: "char \<Rightarrow> char" where
  "lower_char c =
     (let n = (of_char c :: nat) in
      if (65 \<le> n \<and> n \<le> 90) \<or> (192 \<le> n \<and> n \<le> 222 \<and> n \<noteq> 215)
      then char_of (n + 32) else c)"

definition lower :: "string \<Rightarrow> string" where
  "lower s = map lower_char s"

fun startswith :: "string \<Rightarrow> string \<Rightarrow> bool" where
  "startswith s [] = True"
| "startswith [] (p # ps) = False"
| "startswith (c # cs) (p # ps) = (c = p \<and> startswith cs ps)"

text \<open>\<open>str_in sub s\<close> is Python's \<open>sub in s\<close> on strings.\<close>

fun str_in :: "string \<Rightarrow> string \<Rightarrow> bool" where
  "str_in sub [] = (sub = [])"
| "str_in sub (c # cs) = (startswith (c # cs) sub \<or> str_in sub cs)"

definition is_space :: "char \<Rightarrow> bool" where
  "is_space c = (c \<in> set [CHR 0x09, CHR 0x0A, CHR 0x0B, CHR 0x0C, CHR 0x0D,
                           CHR 0x1C, CHR 0x1D, CHR 0x1E, CHR 0x1F, CHR 0x20,
                           CHR 0x85, CHR 0xA0])"

definition strip :: "string \<Rightarrow> string" where
  "strip s = rev (dropWhile is_space (rev (dropWhile is_space s)))"

fun join :: "string \<Rightarrow> string list \<Rightarrow> string" where
  "join sep [] = []"
| "join sep [x] = x"
| "join sep (x # y # ys) = x @ sep @ join sep (y # ys)"

text \<open>\<open>xs[-3:]\<close>: the last three elements, or all of them when there are fewer.\<close>

definition last3 :: "'a list \<Rightarrow> 'a list" where
  "last3 xs = drop (length xs - 3) xs"

text \<open>\<open>x or d\<close> on an optional integer: \<open>None\<close> and \<open>0\<close> are falsy.\<close>

definition int_or :: "int option \<Rightarrow> int \<Rightarrow> int" where
  "int_or x d = (case x of None \<Rightarrow> d | Some n \<Rightarrow> if n = 0 then d else n)"

text \<open>Truthiness of an optional string: \<open>None\<close> and the empty string are falsy.\<close>

definition truthy :: "string option \<Rightarrow> bool" where
  "truthy x = (case x of None \<Rightarrow> False | Some s \<Rightarrow> s \<noteq> [])"

text \<open>The string a truthy optional string holds.\<close>

definition str_of :: "string option \<Rightarrow> string" where
  "str_of x = (case x of None \<Rightarrow> [] | Some s \<Rightarrow> s)"

section \<open>Configuration (config/settings.py)\<close>

record settings =
  openai_api_key :: "string option"
  openai_model :: string
  openai_max_tokens :: int
  ollama_host :: string
  default_local_model :: string
  use_local_first :: bool
  fallback_to_api :: bool
  allow_file_operations :: bool
  allowed_directories :: "string list"
  auto_organize_downloads :: bool
  duplicate_check_enabled :: bool
  backup_before_organize :: bool

text \<open>The defaults of the \<open>Settings\<close> class, with the home directory \<open>/home/user\<close>.\<close>

definition default_settings :: settings where
  "default_settings =
     \<lparr> openai_api_key = None,
       openai_model = ''gpt-3.5-turbo'',
       openai_max_tokens = 1000,
       ollama_host = ''http://localhost:11434'',
       default_local_model = ''llama3.1:8b'',
       use_local_first = True,
       fallback_to_api = True,
       allow_file_operations = True,
       allowed_directories =
         [''/home/user/Documents'', ''/home/user/Downloads'', ''/home/user/Desktop''],
       auto_organize_downloads = False,
       duplicate_check_enabled = True,
       backup_before_organize = True \<rparr>"

section \<open>Logging (crystal/utils/logging.py)\<close>

text \<open>
  \<open>CrystalLogger.system_event(event, ...)\<close> calls the bound logger as
  \<open>self.logger.info("system_event", event=event, ...)\<close>. The logger's first positional
  parameter is itself named \<open>event\<close>, so the call binds it twice and raises \<open>TypeError\<close>
  before anything is logged, on every call. The text of the exception names the
  logger's method and so depends on the logging library's version and configuration; it
  is the parameter \<open>type_error\<close>. The other methods (\<open>assistant_action\<close>, \<open>info\<close>,
  \<open>warning\<close>, \<open>error\<close>) pass no \<open>event\<close> keyword; they log and return, and are left out
  of the model.
\<close>

definition system_event :: "string \<Rightarrow> string \<Rightarrow> string option" where
  "system_event type_error event = Some type_error"

section \<open>AI service (crystal/services/ai_service.py)\<close>

text \<open>
  A conversation-history entry is whatever the caller put into the context dictionary:
  a dictionary of strings, or a value of another type (named by its Python type), on
  which \<open>.get\<close> raises \<open>AttributeError\<close>.
\<close>

datatype hist_entry = Entry "(string \<times> string) list" | NotADict string

record chat_context =
  conversation_history :: "hist_entry list"

text \<open>\<open>context and context.get('conversation_history')\<close>, as a list (empty when falsy).\<close>

definition history_of :: "chat_context option \<Rightarrow> hist_entry list" where
  "history_of ctx = (case ctx of None \<Rightarrow> [] | Some c \<Rightarrow> conversation_history c)"

text \<open>
  The libraries the service calls. \<open>logger_error\<close> is the text of the \<open>TypeError\<close> of
  \<open>system_event\<close>. \<open>ollama_list\<close> is the outcome of constructing the
  Ollama client and listing the installed model names; \<open>ollama_generate model prompt
  num_predict\<close> is the outcome of \<open>ollama_client.generate\<close> followed by
  \<open>response['response']\<close>; \<open>openai_create model messages max_tokens\<close> is the outcome of
  \<open>chat.completions.create\<close>: the \<open>message.content\<close> of each returned choice. The
  sampling temperature is the constant 0.7 in both calls and is left out.
\<close>

record backends =
  logger_error :: string
  ollama_list :: "string + string list"
  ollama_generate :: "string \<Rightarrow> string \<Rightarrow> int \<Rightarrow> string + string"
  openai_create :: "string \<Rightarrow> (string \<times> string) list \<Rightarrow> int \<Rightarrow> string + string option list"

text \<open>Every generation request sent to a backend is recorded, oldest first.\<close>

datatype backend_call =
  OllamaGenerate string string int
| OpenAICreate string "(string \<times> string) list" int

text \<open>
  The service object. A client is represented by the argument it was constructed from
  (the API key, the host); \<open>calls\<close> is a ghost field holding the generation requests
  issued so far.
\<close>

record ai_service =
  openai_client :: "string option"
  ollama_client :: "string option"
  available_local_models :: "string list"
  ai_is_initialized :: bool
  calls :: "backend_call list"

definition new_ai_service :: ai_service where
  "new_ai_service =
     \<lparr> openai_client = None, ollama_client = None, available_local_models = [],
       ai_is_initialized = False, calls = [] \<rparr>"

text \<open>
  \<open>initialize\<close>: the exception it raises (if any) and the service as the call leaves it.
  Its first statement after the guard is a \<open>system_event\<close> call, outside any \<open>try\<close>.
\<close>

definition ai_initialize ::
  "settings \<Rightarrow> backends \<Rightarrow> ai_service \<Rightarrow> string option \<times> ai_service" where
  "ai_initialize cfg ext s =
     (if ai_is_initialized s then (None, s)
      else
        case system_event (logger_error ext) ''ai_service_initialization'' of
          Some e \<Rightarrow> (Some e, s)
        | None \<Rightarrow>
            (let s1 = (if truthy (openai_api_key cfg)
                       then s\<lparr>openai_client := openai_api_key cfg\<rparr> else s);
                 s2 = (case ollama_list ext of
                         Inr names \<Rightarrow>
                           s1\<lparr>ollama_client := Some (ollama_host cfg),
                              available_local_models := names\<rparr>
                       | Inl e \<Rightarrow> s1\<lparr>ollama_client := None\<rparr>);
                 s3 = s2\<lparr>ai_is_initialized := True\<rparr>
             in (system_event (logger_error ext) ''ai_service_ready'', s3)))"

definition select_optimal_model :: "settings \<Rightarrow> ai_service \<Rightarrow> string \<Rightarrow> string" where
  "select_optimal_model cfg s message =
     (if (length message > 500 \<or>
          list_ex (\<lambda>word. str_in word (lower message)) [''analyze'', ''complex'', ''detailed''])
         \<and> openai_client s \<noteq> None
      then openai_model cfg
      else if available_local_models s \<noteq> [] then default_local_model cfg
      else openai_model cfg)"

definition is_local_model :: "ai_service \<Rightarrow> string \<Rightarrow> bool" where
  "is_local_model s model = (CHR '':'' \<in> set model \<or> model \<in> set (available_local_models s))"

definition is_openai_model :: "string \<Rightarrow> bool" where
  "is_openai_model model =
     (startswith model ''gpt-'' \<or> model \<in> set [''gpt-3.5-turbo'', ''gpt-4''])"

definition dict_get_or :: "(string \<times> string) list \<Rightarrow> string \<Rightarrow> string \<Rightarrow> string" where
  "dict_get_or d k dflt = (case map_of d k of Some v \<Rightarrow> v | None \<Rightarrow> dflt)"

definition attribute_error :: "string \<Rightarrow> string" where
  "attribute_error ty = [CHR 0x27] @ ty @ [CHR 0x27] @ '' object has no attribute '' @
     [CHR 0x27] @ ''get'' @ [CHR 0x27]"

text \<open>The loop of \<open>_build_prompt\<close> over the retained history entries.\<close>

fun prompt_lines :: "hist_entry list \<Rightarrow> string + string" where
  "prompt_lines [] = Inr []"
| "prompt_lines (NotADict ty # rest) = Inl (attribute_error ty)"
| "prompt_lines (Entry d # rest) =
     (case prompt_lines rest of
        Inl e \<Rightarrow> Inl e
      | Inr p \<Rightarrow>
          Inr (dict_get_or d ''role'' ''user'' @ '': '' @ dict_get_or d ''content'' [] @
               [CHR 0x0A] @ p))"

definition build_prompt :: "string \<Rightarrow> chat_context option \<Rightarrow> string + string" where
  "build_prompt message ctx =
     (let tail = ''User: '' @ message @ [CHR 0x0A] @ ''Assistant:'' in
      if history_of ctx \<noteq> [] then
        (case prompt_lines (last3 (history_of ctx)) of
           Inl e \<Rightarrow> Inl e
         | Inr ls \<Rightarrow>
             Inr (''Previous conversation:'' @ [CHR 0x0A] @ ls @ [CHR 0x0A] @ tail))
      else Inr tail)"

definition generate_local_response ::
  "settings \<Rightarrow> backends \<Rightarrow> ai_service \<Rightarrow> string \<Rightarrow> string \<Rightarrow> chat_context option \<Rightarrow> int option
     \<Rightarrow> string option \<times> ai_service" where
  "generate_local_response cfg ext s message model ctx max_tokens =
     (if ollama_client s = None then (None, s)
      else
        case build_prompt message ctx of
          Inl e \<Rightarrow> (None, s)
        | Inr prompt \<Rightarrow>
            let n = int_or max_tokens (openai_max_tokens cfg);
                s' = s\<lparr>calls := calls s @ [OllamaGenerate model prompt n]\<rparr>
            in (case ollama_generate ext model prompt n of
                  Inl e \<Rightarrow> (None, s')
                | Inr r \<Rightarrow> (Some r, s')))"

text \<open>The history entries \<open>_generate_openai_response\<close> forwards as chat messages.\<close>

fun history_messages :: "hist_entry list \<Rightarrow> (string \<times> string) list" where
  "history_messages [] = []"
| "history_messages (NotADict ty # rest) = history_messages rest"
| "history_messages (Entry d # rest) =
     (case (map_of d ''role'', map_of d ''content'') of
        (Some r, Some c) \<Rightarrow> (r, c) # history_messages rest
      | _ \<Rightarrow> history_messages rest)"

text \<open>The chat messages \<open>_generate_openai_response\<close> sends for a message and a context.\<close>

definition chat_messages :: "string \<Rightarrow> chat_context option \<Rightarrow> (string \<times> string) list" where
  "chat_messages message ctx =
     [(''system'', ''You are a helpful personal assistant named Ruby.'')] @
     history_messages (history_of ctx) @ [(''user'', message)]"

definition no_content_apology :: string where
  "no_content_apology = ''I apologize, but I couldn'' @ [CHR 0x27] @ ''t generate a response.''"

definition generate_openai_response ::
  "settings \<Rightarrow> backends \<Rightarrow> ai_service \<Rightarrow> string \<Rightarrow> string \<Rightarrow> chat_context option \<Rightarrow> int option
     \<Rightarrow> (string + string) \<times> ai_service" where
  "generate_openai_response cfg ext s message model ctx max_tokens =
     (if openai_client s = None then (Inl ''OpenAI client not initialized'', s)
      else
        let messages = chat_messages message ctx;
            n = int_or max_tokens (openai_max_tokens cfg);
            s' = s\<lparr>calls := calls s @ [OpenAICreate model messages n]\<rparr>
        in (case openai_create ext model messages n of
              Inl e \<Rightarrow> (Inl e, s')
            | Inr choices \<Rightarrow>
                (case choices of
                   [] \<Rightarrow> (Inl ''list index out of range'', s')
                 | content # _ \<Rightarrow>
                     (case content of
                        Some c \<Rightarrow> (Inr c, s')
                      | None \<Rightarrow> (Inr no_content_apology, s')))))"

definition degraded_message :: string where
  "degraded_message = ''I'' @ [CHR 0x27] @ ''m sorry, but I'' @ [CHR 0x27] @
     ''m unable to process your request right now. Please check the AI service configuration.''"

definition generation_error :: "string \<Rightarrow> string" where
  "generation_error e = ''I encountered an error while processing your request: '' @ e"

text \<open>The \<open>except Exception\<close> handler of \<open>generate_response\<close> around a remote call.\<close>

definition caught :: "(string + string) \<times> ai_service \<Rightarrow> string \<times> ai_service" where
  "caught r = (case r of (Inl e, s) \<Rightarrow> (generation_error e, s) | (Inr v, s) \<Rightarrow> (v, s))"

text \<open>The model identifier after \<open>if not model: model = await self._select_optimal_model\<close>.\<close>

definition resolve_model :: "settings \<Rightarrow> ai_service \<Rightarrow> string \<Rightarrow> string option \<Rightarrow> string" where
  "resolve_model cfg s message model =
     (if \<not> truthy model then select_optimal_model cfg s message
      else (case model of Some m \<Rightarrow> m | None \<Rightarrow> []))"

text \<open>
  The \<open>try\<close> block of \<open>generate_response\<close> with its \<open>except Exception\<close> handler: the
  dispatch over the backends for a resolved model identifier. It always returns a text.
\<close>

definition dispatch ::
  "settings \<Rightarrow> backends \<Rightarrow> ai_service \<Rightarrow> string \<Rightarrow> string \<Rightarrow> chat_context option
     \<Rightarrow> int option \<Rightarrow> string \<times> ai_service" where
  "dispatch cfg ext s message model ctx max_tokens =
     (if use_local_first cfg \<and> is_local_model s model then
        (let (response, s1) =
               (if model \<in> set (available_local_models s)
                then generate_local_response cfg ext s message model ctx max_tokens
                else (None, s))
         in if truthy response then (str_of response, s1)
            else if fallback_to_api cfg \<and> openai_client s1 \<noteq> None
            then caught (generate_openai_response cfg ext s1 message (openai_model cfg)
                           ctx max_tokens)
            else (degraded_message, s1))
      else if openai_client s \<noteq> None \<and> is_openai_model model then
        caught (generate_openai_response cfg ext s message model ctx max_tokens)
      else if ollama_client s \<noteq> None \<and> available_local_models s \<noteq> [] then
        (case available_local_models s of
           [] \<Rightarrow> (degraded_message, s)
         | local_model # _ \<Rightarrow>
             (let (response, s1) =
                    generate_local_response cfg ext s message local_model ctx max_tokens
              in if truthy response then (str_of response, s1)
                 else (degraded_message, s1)))
      else (degraded_message, s))"

text \<open>
  \<open>generate_response\<close>: the returned text, or the exception that escapes (the lazy
  \<open>initialize\<close> and the model selection run before the \<open>try\<close>), and the service
  afterwards.
\<close>

definition generate_response ::
  "settings \<Rightarrow> backends \<Rightarrow> ai_service \<Rightarrow> string \<Rightarrow> string option \<Rightarrow> chat_context option
     \<Rightarrow> int option \<Rightarrow> (string + string) \<times> ai_service" where
  "generate_response cfg ext s0 message model_hint ctx max_tokens =
     (case (if \<not> ai_is_initialized s0 then ai_initialize cfg ext s0 else (None, s0)) of
        (Some e, s) \<Rightarrow> (Inl e, s)
      | (None, s) \<Rightarrow>
          (let (text, s') = dispatch cfg ext s message
                              (resolve_model cfg s message model_hint) ctx max_tokens
           in (Inr text, s')))"

fun is_ollama_call :: "backend_call \<Rightarrow> bool" where
  "is_ollama_call (OllamaGenerate model prompt n) = True"
| "is_ollama_call (OpenAICreate model messages n) = False"

text \<open>Concrete worlds used to exercise the service.\<close>

definition offline_backends :: backends where
  "offline_backends =
     \<lparr> logger_error = ''info() got multiple values for argument '' @ [CHR 0x27] @ ''event'' @
         [CHR 0x27],
       ollama_list = Inl ''connection refused'',
       ollama_generate = (\<lambda>model prompt n. Inl ''connection refused''),
       openai_create = (\<lambda>model messages n. Inl ''connection error'') \<rparr>"

definition keyed_settings :: settings where
  "keyed_settings = default_settings\<lparr>openai_api_key := Some ''sk-test''\<rparr>"

definition failing_local_backends :: backends where
  "failing_local_backends =
     \<lparr> logger_error = ''info() got multiple values for argument '' @ [CHR 0x27] @ ''event'' @
         [CHR 0x27],
       ollama_list = Inr [''llama3.1:8b''],
       ollama_generate = (\<lambda>model prompt n. Inl ''model runner crashed''),
       openai_create = (\<lambda>model messages n. Inr [Some (''reply of '' @ model)]) \<rparr>"

definition local_only_backends :: backends where
  "local_only_backends =
     \<lparr> logger_error = ''info() got multiple values for argument '' @ [CHR 0x27] @ ''event'' @
         [CHR 0x27],
       ollama_list = Inr [''llama3.1:8b''],
       ollama_generate = (\<lambda>model prompt n. Inr (''reply of '' @ model)),
       openai_create = (\<lambda>model messages n. Inl ''connection error'') \<rparr>"

definition empty_content_backends :: backends where
  "empty_content_backends =
     \<lparr> logger_error = ''info() got multiple values for argument '' @ [CHR 0x27] @ ''event'' @
         [CHR 0x27],
       ollama_list = Inl ''connection refused'',
       ollama_generate = (\<lambda>model prompt n. Inl ''connection refused''),
       openai_create = (\<lambda>model messages n. Inr [Some []]) \<rparr>"

definition remote_only_settings :: settings where
  "remote_only_settings = default_settings\<lparr>use_local_first := False\<rparr>"

text \<open>
  Services whose \<open>is_initialized\<close> flag is already set, as a caller that assigns the
  attributes itself leaves them: with an OpenAI client only, with an Ollama client and one
  local model only, with both, and with neither.
\<close>

definition remote_ready_service :: ai_service where
  "remote_ready_service =
     \<lparr> openai_client = Some ''sk-test'', ollama_client = None, available_local_models = [],
       ai_is_initialized = True, calls = [] \<rparr>"

definition local_ready_service :: ai_service where
  "local_ready_service =
     \<lparr> openai_client = None, ollama_client = Some ''http://localhost:11434'',
       available_local_models = [''llama3.1:8b''], ai_is_initialized = True, calls = [] \<rparr>"

definition hybrid_ready_service :: ai_service where
  "hybrid_ready_service =
     \<lparr> openai_client = Some ''sk-test'', ollama_client = Some ''http://localhost:11434'',
       available_local_models = [''llama3.1:8b''], ai_is_initialized = True, calls = [] \<rparr>"

definition idle_ready_service :: ai_service where
  "idle_ready_service =
     \<lparr> openai_client = None, ollama_client = None, available_local_models = [],
       ai_is_initialized = True, calls = [] \<rparr>"


section \<open>JSON-like values of the result dictionaries\<close>

datatype jv =
  JNone
| JBool bool
| JInt int
| JStr string
| JList "jv list"
| JDict "(string \<times> jv) list"

text \<open>
  A Python dictionary with string keys is an association list in insertion order:
  \<open>d[k] = v\<close> is \<open>AList.update k v d\<close> (an existing key keeps its place, a new key goes
  last) and \<open>del d[k]\<close> is \<open>AList.delete k d\<close>.
\<close>

type_synonym pydict = "(string \<times> jv) list"

section \<open>Task scheduler (crystal/services/task_scheduler.py)\<close>

text \<open>
  The triggers of the external scheduling library. A cron trigger is built from its
  crontab expression, an interval trigger from keyword arguments (seconds, minutes,
  hours, ...), a date trigger from the run date (here its ISO text).
\<close>

datatype trigger =
  CronTrigger string
| IntervalTrigger "(string \<times> int) list"
| DateTrigger string

text \<open>
  What the library may raise: \<open>trigger_error t\<close> is the exception of constructing the
  trigger \<open>t\<close> (a malformed crontab expression, an unknown interval keyword),
  \<open>add_job_error task_id t\<close> the exception of \<open>add_job\<close>, \<open>start_error\<close> the exception of
  starting the scheduler's event loop; \<open>None\<close> when the call succeeds.
  \<open>scheduler_logger_error\<close> is the text of the \<open>TypeError\<close> of \<open>system_event\<close>. The
  scheduled callable and its arguments are opaque to the service and are left out.
\<close>

record scheduler_lib =
  trigger_error :: "trigger \<Rightarrow> string option"
  add_job_error :: "string \<Rightarrow> trigger \<Rightarrow> string option"
  start_error :: "string option"
  scheduler_logger_error :: string

text \<open>
  The library's scheduler object. While it is stopped, added jobs are queued in
  \<open>pending_jobs\<close> (one entry per \<open>add_job\<close> call, also for an id queued before);
  \<open>start\<close> moves them into the job store, where a job replaces the one stored under
  the same id (\<open>replace_existing=True\<close> on every \<open>add_job\<close> of the service). While it is
  running, jobs go to the store directly. Jobs are not run in the model: between two
  calls of the service no job fires, so no one-time job is retired by the library.
\<close>

record apscheduler =
  pending_jobs :: "(string \<times> trigger) list"
  job_store :: "(string \<times> trigger) list"
  running :: bool

definition new_apscheduler :: apscheduler where
  "new_apscheduler = \<lparr> pending_jobs = [], job_store = [], running = False \<rparr>"

definition add_job ::
  "scheduler_lib \<Rightarrow> apscheduler \<Rightarrow> string \<Rightarrow> trigger \<Rightarrow> string + apscheduler" where
  "add_job lib sch job_id t =
     (case add_job_error lib job_id t of
        Some e \<Rightarrow> Inl e
      | None \<Rightarrow>
          Inr (if running sch
               then sch\<lparr>job_store := AList.update job_id t (job_store sch)\<rparr>
               else sch\<lparr>pending_jobs := pending_jobs sch @ [(job_id, t)]\<rparr>))"

text \<open>Removes the first queued job with the given id.\<close>

fun remove_first :: "string \<Rightarrow> (string \<times> trigger) list \<Rightarrow> (string \<times> trigger) list" where
  "remove_first job_id [] = []"
| "remove_first job_id (j # js) = (if fst j = job_id then js else j # remove_first job_id js)"

definition job_lookup_error :: "string \<Rightarrow> string" where
  "job_lookup_error job_id = ''No job by the id of '' @ job_id @ '' was found''"

definition remove_job :: "apscheduler \<Rightarrow> string \<Rightarrow> string + apscheduler" where
  "remove_job sch job_id =
     (if running sch then
        (if job_id \<in> fst ` set (job_store sch)
         then Inr (sch\<lparr>job_store := AList.delete job_id (job_store sch)\<rparr>)
         else Inl (job_lookup_error job_id))
      else
        (if job_id \<in> fst ` set (pending_jobs sch)
         then Inr (sch\<lparr>pending_jobs := remove_first job_id (pending_jobs sch)\<rparr>)
         else Inl (job_lookup_error job_id)))"

definition get_jobs :: "apscheduler \<Rightarrow> (string \<times> trigger) list" where
  "get_jobs sch = (if running sch then job_store sch else pending_jobs sch)"

definition start_apscheduler :: "scheduler_lib \<Rightarrow> apscheduler \<Rightarrow> string + apscheduler" where
  "start_apscheduler lib sch =
     (if running sch then Inl ''Scheduler is already running''
      else
        case start_error lib of
          Some e \<Rightarrow> Inl e
        | None \<Rightarrow>
            Inr \<lparr> pending_jobs = [],
                  job_store = foldl (\<lambda>store (job_id, t). AList.update job_id t store)
                                (job_store sch) (pending_jobs sch),
                  running = True \<rparr>)"

definition shutdown_apscheduler :: "apscheduler \<Rightarrow> string + apscheduler" where
  "shutdown_apscheduler sch =
     (if running sch then Inr (sch\<lparr>running := False\<rparr>) else Inl ''Scheduler is not running'')"

text \<open>
  The service object: \<open>scheduler\<close> is the library's scheduler, \<open>active_tasks\<close> the service's
  own directory of job metadata.
\<close>

record task_scheduler =
  scheduler :: apscheduler
  is_running :: bool
  active_tasks :: "(string \<times> pydict) list"

definition new_task_scheduler :: task_scheduler where
  "new_task_scheduler =
     \<lparr> scheduler = new_apscheduler, is_running = False, active_tasks = [] \<rparr>"

text \<open>
  The three scheduling methods take the current time \<open>now\<close>
  (\<open>datetime.utcnow().isoformat()\<close>) and return the boolean of the source with the
  new state; any exception inside the \<open>try\<close> leaves the state as it was.
\<close>

definition schedule_cron_task ::
  "scheduler_lib \<Rightarrow> string \<Rightarrow> task_scheduler \<Rightarrow> string \<Rightarrow> string \<Rightarrow> string
     \<Rightarrow> bool \<times> task_scheduler" where
  "schedule_cron_task lib now s task_id cron_expression description =
     (case trigger_error lib (CronTrigger cron_expression) of
        Some e \<Rightarrow> (False, s)
      | None \<Rightarrow>
          (case add_job lib (scheduler s) task_id (CronTrigger cron_expression) of
             Inl e \<Rightarrow> (False, s)
           | Inr sch \<Rightarrow>
               (True,
                s\<lparr>scheduler := sch,
                  active_tasks := AList.update task_id
                    [(''type'', JStr ''cron''),
                     (''expression'', JStr cron_expression),
                     (''description'', JStr description),
                     (''created'', JStr now)] (active_tasks s)\<rparr>)))"

definition schedule_interval_task ::
  "scheduler_lib \<Rightarrow> string \<Rightarrow> task_scheduler \<Rightarrow> string \<Rightarrow> string \<Rightarrow> (string \<times> int) list
     \<Rightarrow> bool \<times> task_scheduler" where
  "schedule_interval_task lib now s task_id description interval_kwargs =
     (case trigger_error lib (IntervalTrigger interval_kwargs) of
        Some e \<Rightarrow> (False, s)
      | None \<Rightarrow>
          (case add_job lib (scheduler s) task_id (IntervalTrigger interval_kwargs) of
             Inl e \<Rightarrow> (False, s)
           | Inr sch \<Rightarrow>
               (True,
                s\<lparr>scheduler := sch,
                  active_tasks := AList.update task_id
                    [(''type'', JStr ''interval''),
                     (''interval'', JDict (map (\<lambda>(k, n). (k, JInt n)) interval_kwargs)),
                     (''description'', JStr description),
                     (''created'', JStr now)] (active_tasks s)\<rparr>)))"

definition schedule_one_time_task ::
  "scheduler_lib \<Rightarrow> string \<Rightarrow> task_scheduler \<Rightarrow> string \<Rightarrow> string \<Rightarrow> string
     \<Rightarrow> bool \<times> task_scheduler" where
  "schedule_one_time_task lib now s task_id run_date description =
     (case trigger_error lib (DateTrigger run_date) of
        Some e \<Rightarrow> (False, s)
      | None \<Rightarrow>
          (case add_job lib (scheduler s) task_id (DateTrigger run_date) of
             Inl e \<Rightarrow> (False, s)
           | Inr sch \<Rightarrow>
               (True,
                s\<lparr>scheduler := sch,
                  active_tasks := AList.update task_id
                    [(''type'', JStr ''one_time''),
                     (''run_date'', JStr run_date),
                     (''description'', JStr description),
                     (''created'', JStr now)] (active_tasks s)\<rparr>)))"

text \<open>
  \<open>cancel_task\<close>: when \<open>scheduler.remove_job\<close> raises (no job with that id), the handler
  returns \<open>False\<close> and \<open>active_tasks\<close> is not touched.
\<close>

definition cancel_task :: "task_scheduler \<Rightarrow> string \<Rightarrow> bool \<times> task_scheduler" where
  "cancel_task s task_id =
     (case remove_job (scheduler s) task_id of
        Inl e \<Rightarrow> (False, s)
      | Inr sch \<Rightarrow>
          (let s1 = s\<lparr>scheduler := sch\<rparr>;
               s2 = (if task_id \<in> fst ` set (active_tasks s1)
                     then s1\<lparr>active_tasks := AList.delete task_id (active_tasks s1)\<rparr>
                     else s1)
           in (True, s2)))"

record scheduled_tasks =
  listed_active_tasks :: "(string \<times> pydict) list"
  scheduler_running :: bool
  jobs_count :: nat

definition get_scheduled_tasks :: "task_scheduler \<Rightarrow> scheduled_tasks" where
  "get_scheduled_tasks s =
     \<lparr> listed_active_tasks = active_tasks s,
       scheduler_running = is_running s,
       jobs_count = length (get_jobs (scheduler s)) \<rparr>"

definition schedule_default_tasks ::
  "settings \<Rightarrow> scheduler_lib \<Rightarrow> string \<Rightarrow> task_scheduler \<Rightarrow> task_scheduler" where
  "schedule_default_tasks cfg lib now s =
     (let s1 = snd (schedule_interval_task lib now s ''system_health_check''
                      ''System health monitoring'' [(''minutes'', 5)])
      in if auto_organize_downloads cfg
         then snd (schedule_interval_task lib now s1 ''auto_organize_downloads''
                     ''Automatic downloads organization'' [(''hours'', 1)])
         else s1)"

text \<open>
  \<open>start\<close>: the exception it raises (if any) and the service as the call leaves it. Its
  last statement is a \<open>system_event\<close> call, after the default jobs are registered.
\<close>

definition scheduler_start ::
  "settings \<Rightarrow> scheduler_lib \<Rightarrow> string \<Rightarrow> task_scheduler \<Rightarrow> string option \<times> task_scheduler" where
  "scheduler_start cfg lib now s =
     (if is_running s then (None, s)
      else
        case start_apscheduler lib (scheduler s) of
          Inl e \<Rightarrow> (Some e, s)
        | Inr sch \<Rightarrow>
            (system_event (scheduler_logger_error lib) ''task_scheduler_started'',
             schedule_default_tasks cfg lib now (s\<lparr>scheduler := sch, is_running := True\<rparr>)))"

definition scheduler_shutdown ::
  "scheduler_lib \<Rightarrow> task_scheduler \<Rightarrow> string option \<times> task_scheduler" where
  "scheduler_shutdown lib s =
     (if is_running s then
        (case shutdown_apscheduler (scheduler s) of
           Inl e \<Rightarrow> (Some e, s)
         | Inr sch \<Rightarrow>
             (system_event (scheduler_logger_error lib) ''task_scheduler_shutdown'',
              s\<lparr>scheduler := sch, is_running := False\<rparr>))
      else (None, s))"

text \<open>
  A scheduling call of any of the three kinds, the trigger it builds and the metadata a
  successful call records for it; used to state properties that hold for every trigger
  kind.
\<close>

datatype schedule_call =
  CronCall string string
| IntervalCall string "(string \<times> int) list"
| OneTimeCall string string

fun schedule ::
  "scheduler_lib \<Rightarrow> string \<Rightarrow> task_scheduler \<Rightarrow> string \<Rightarrow> schedule_call
     \<Rightarrow> bool \<times> task_scheduler" where
  "schedule lib now s task_id (CronCall cron_expression description) =
     schedule_cron_task lib now s task_id cron_expression description"
| "schedule lib now s task_id (IntervalCall description interval_kwargs) =
     schedule_interval_task lib now s task_id description interval_kwargs"
| "schedule lib now s task_id (OneTimeCall run_date description) =
     schedule_one_time_task lib now s task_id run_date description"

fun trigger_of :: "schedule_call \<Rightarrow> trigger" where
  "trigger_of (CronCall cron_expression description) = CronTrigger cron_expression"
| "trigger_of (IntervalCall description interval_kwargs) = IntervalTrigger interval_kwargs"
| "trigger_of (OneTimeCall run_date description) = DateTrigger run_date"

fun task_record :: "string \<Rightarrow> schedule_call \<Rightarrow> pydict" where
  "task_record now (CronCall cron_expression description) =
     [(''type'', JStr ''cron''), (''expression'', JStr cron_expression),
      (''description'', JStr description), (''created'', JStr now)]"
| "task_record now (IntervalCall description interval_kwargs) =
     [(''type'', JStr ''interval''),
      (''interval'', JDict (map (\<lambda>(k, n). (k, JInt n)) interval_kwargs)),
      (''description'', JStr description), (''created'', JStr now)]"
| "task_record now (OneTimeCall run_date description) =
     [(''type'', JStr ''one_time''), (''run_date'', JStr run_date),
      (''description'', JStr description), (''created'', JStr now)]"

text \<open>The library accepts the call: the trigger can be built and the job added.\<close>

definition accepted :: "scheduler_lib \<Rightarrow> string \<Rightarrow> schedule_call \<Rightarrow> bool" where
  "accepted lib task_id c =
     (trigger_error lib (trigger_of c) = None \<and> add_job_error lib task_id (trigger_of c) = None)"

text \<open>A library that refuses an empty crontab expression and nothing else.\<close>

definition strict_lib :: scheduler_lib where
  "strict_lib =
     \<lparr> trigger_error = (\<lambda>t. case t of
          CronTrigger e \<Rightarrow> if e = [] then Some ''Wrong number of fields'' else None
        | _ \<Rightarrow> None),
       add_job_error = (\<lambda>task_id t. None),
       start_error = None,
       scheduler_logger_error =
         ''info() got multiple values for argument '' @ [CHR 0x27] @ ''event'' @ [CHR 0x27] \<rparr>"

text \<open>A service whose scheduler is running, as \<open>start\<close> leaves it when it raises.\<close>

definition started_task_scheduler :: task_scheduler where
  "started_task_scheduler =
     snd (scheduler_start default_settings strict_lib ''2024-01-01T00:00:00''
            new_task_scheduler)"

section \<open>Paths and the file system\<close>

text \<open>
  A \<open>pathlib\<close> path on a POSIX system: \<open>anchor\<close> is its root (empty for a relative
  path, \<open>/\<close>, or \<open>//\<close> when the text starts with exactly two slashes) and \<open>names\<close> are
  the components after it. \<open>Path\<close> parses the textual form (separator \<open>/\<close>, empty
  components and \<open>.\<close> dropped, \<open>..\<close> kept) and \<open>path_str\<close> prints it, so a relative
  path prints relative and the empty path prints as a dot.
\<close>

record path =
  anchor :: string
  names :: "string list"

fun split_on :: "char \<Rightarrow> string \<Rightarrow> string list" where
  "split_on sep [] = [[]]"
| "split_on sep (c # cs) =
     (if c = sep then [] # split_on sep cs
      else (case split_on sep cs of
              [] \<Rightarrow> [[c]]
            | w # ws \<Rightarrow> (c # w) # ws))"

definition Path :: "string \<Rightarrow> path" where
  "Path s =
     \<lparr> anchor = (if startswith s ''//'' \<and> \<not> startswith s ''///'' then ''//''
                 else if startswith s ''/'' then ''/'' else []),
       names = filter (\<lambda>c. c \<noteq> [] \<and> c \<noteq> ''.'') (split_on CHR ''/'' s) \<rparr>"

definition path_str :: "path \<Rightarrow> string" where
  "path_str p =
     (if anchor p = [] \<and> names p = [] then ''.'' else anchor p @ join ''/'' (names p))"

definition path_name :: "path \<Rightarrow> string" where
  "path_name p = (if names p = [] then [] else last (names p))"

definition path_parent :: "path \<Rightarrow> path" where
  "path_parent p = p\<lparr>names := butlast (names p)\<rparr>"

text \<open>
  \<open>p / name\<close> for a single file name. The service joins a directory only with a category
  name, with the name of a directory entry, or with a text built from the two and a
  counter; none of them contains a separator.
\<close>

definition child :: "path \<Rightarrow> string \<Rightarrow> path" where
  "child p name = p\<lparr>names := names p @ [name]\<rparr>"

text \<open>
  \<open>suffix\<close> and \<open>stem\<close> of \<open>pathlib\<close>: the name is cut at its last dot, unless that dot
  is the first or the last character of the name.
\<close>

definition extension_of :: "string \<Rightarrow> string" where
  "extension_of name = rev (takeWhile (\<lambda>c. c \<noteq> CHR ''.'') (rev name))"

definition has_suffix :: "string \<Rightarrow> bool" where
  "has_suffix name =
     (CHR ''.'' \<in> set name \<and> extension_of name \<noteq> [] \<and>
      length (extension_of name) + 1 < length name)"

definition path_suffix :: "path \<Rightarrow> string" where
  "path_suffix p =
     (if has_suffix (path_name p) then ''.'' @ extension_of (path_name p) else [])"

definition path_stem :: "path \<Rightarrow> string" where
  "path_stem p =
     (if has_suffix (path_name p)
      then take (length (path_name p) - length (extension_of (path_name p)) - 1) (path_name p)
      else path_name p)"

text \<open>
  \<open>is_relative_to\<close> compares the part lists \<open>pathlib\<close> compares: for a rooted path the
  (empty) drive and the root come first. An empty \<open>other\<close> is the current directory,
  and only a relative path is relative to it.
\<close>

definition abs_parts :: "path \<Rightarrow> string list" where
  "abs_parts p = (if anchor p \<noteq> [] then [[], anchor p] @ names p else names p)"

definition is_relative_to :: "path \<Rightarrow> path \<Rightarrow> bool" where
  "is_relative_to p other =
     (if abs_parts other = [] then anchor p = []
      else take (length (abs_parts other)) (abs_parts p) = abs_parts other)"

text \<open>
  The file system is an association list from absolute locations (the list of
  directory names from the root down) to nodes, with at most one entry per location
  and in the order in which a directory listing reports them. A file carries its
  content and its modification time. The root directory always exists; there are no
  symbolic links.
\<close>

datatype node = File string int | Dir

type_synonym filesystem = "(string list \<times> node) list"

definition node_at :: "filesystem \<Rightarrow> string list \<Rightarrow> node option" where
  "node_at fs k = (if k = [] then Some Dir else map_of fs k)"

datatype errno = ENOENT | ENOTDIR | EEXIST

definition os_error :: "errno \<Rightarrow> path \<Rightarrow> string" where
  "os_error e p =
     (case e of
        ENOENT \<Rightarrow> ''[Errno 2] No such file or directory: ''
      | ENOTDIR \<Rightarrow> ''[Errno 20] Not a directory: ''
      | EEXIST \<Rightarrow> ''[Errno 17] File exists: '') @ [CHR 0x27] @ path_str p @ [CHR 0x27]"

text \<open>
  Path lookup as the kernel does it: from the location \<open>cur\<close>, each component is looked
  up in a directory (\<open>..\<close> is the parent, and the parent of the root is the root). The
  result is the location the path names, which need not exist itself.
\<close>

fun walk :: "filesystem \<Rightarrow> string list \<Rightarrow> string list \<Rightarrow> errno + string list" where
  "walk fs cur [] = Inr cur"
| "walk fs cur (c # cs) =
     (case node_at fs cur of
        None \<Rightarrow> Inl ENOENT
      | Some (File content mtime) \<Rightarrow> Inl ENOTDIR
      | Some Dir \<Rightarrow> walk fs (if c = ''..'' then butlast cur else cur @ [c]) cs)"

text \<open>\<open>wd\<close> is the working directory of the process, an absolute location.\<close>

definition locate :: "string list \<Rightarrow> filesystem \<Rightarrow> path \<Rightarrow> errno + string list" where
  "locate wd fs p = walk fs [] (if anchor p = [] then wd @ names p else names p)"

definition stat :: "string list \<Rightarrow> filesystem \<Rightarrow> path \<Rightarrow> string + node" where
  "stat wd fs p =
     (case locate wd fs p of
        Inl e \<Rightarrow> Inl (os_error e p)
      | Inr k \<Rightarrow>
          (case node_at fs k of
             None \<Rightarrow> Inl (os_error ENOENT p)
           | Some n \<Rightarrow> Inr n))"

definition path_exists :: "string list \<Rightarrow> filesystem \<Rightarrow> path \<Rightarrow> bool" where
  "path_exists wd fs p = (case stat wd fs p of Inl e \<Rightarrow> False | Inr n \<Rightarrow> True)"

definition is_dir :: "string list \<Rightarrow> filesystem \<Rightarrow> path \<Rightarrow> bool" where
  "is_dir wd fs p = (stat wd fs p = Inr Dir)"

definition is_file :: "string list \<Rightarrow> filesystem \<Rightarrow> path \<Rightarrow> bool" where
  "is_file wd fs p =
     (case stat wd fs p of Inr (File content mtime) \<Rightarrow> True | _ \<Rightarrow> False)"

text \<open>
  \<open>p.iterdir()\<close>: the entries of a directory, each as \<open>p / name\<close>; and
  \<open>p.rglob('*')\<close>: everything below \<open>p\<close>, each as \<open>p\<close> extended by the relative
  location (nothing when \<open>p\<close> cannot be listed).
\<close>

definition iterdir :: "string list \<Rightarrow> filesystem \<Rightarrow> path \<Rightarrow> string + path list" where
  "iterdir wd fs p =
     (case locate wd fs p of
        Inl e \<Rightarrow> Inl (os_error e p)
      | Inr k \<Rightarrow>
          (case node_at fs k of
             None \<Rightarrow> Inl (os_error ENOENT p)
           | Some (File content mtime) \<Rightarrow> Inl (os_error ENOTDIR p)
           | Some Dir \<Rightarrow>
               Inr (map (\<lambda>q. child p (last q))
                      (filter (\<lambda>q. q \<noteq> [] \<and> butlast q = k) (map fst fs)))))"

definition rglob :: "string list \<Rightarrow> filesystem \<Rightarrow> path \<Rightarrow> path list" where
  "rglob wd fs p =
     (case locate wd fs p of
        Inl e \<Rightarrow> []
      | Inr k \<Rightarrow>
          map (\<lambda>q. p\<lparr>names := names p @ drop (length k) q\<rparr>)
            (filter (\<lambda>q. length k < length q \<and> take (length k) q = k) (map fst fs)))"

text \<open>\<open>target_dir.mkdir(exist_ok=True)\<close>.\<close>

definition mkdir_exist_ok :: "string list \<Rightarrow> filesystem \<Rightarrow> path \<Rightarrow> string + filesystem" where
  "mkdir_exist_ok wd fs p =
     (case locate wd fs p of
        Inl e \<Rightarrow> Inl (os_error e p)
      | Inr k \<Rightarrow>
          (case node_at fs k of
             Some Dir \<Rightarrow> Inr fs
           | Some (File content mtime) \<Rightarrow> Inl (os_error EEXIST p)
           | None \<Rightarrow> Inr (fs @ [(k, Dir)])))"

text \<open>
  \<open>shutil.move\<close> of a regular file to a path that does not exist yet (the service moves
  nothing else): the entry is renamed.
\<close>

definition move :: "string list \<Rightarrow> filesystem \<Rightarrow> path \<Rightarrow> path \<Rightarrow> string + filesystem" where
  "move wd fs src dst =
     (case locate wd fs src of
        Inl e \<Rightarrow> Inl (os_error e src)
      | Inr ks \<Rightarrow>
          (case node_at fs ks of
             None \<Rightarrow> Inl (os_error ENOENT src)
           | Some n \<Rightarrow>
               (case locate wd fs dst of
                  Inl e \<Rightarrow> Inl (os_error e dst)
                | Inr kd \<Rightarrow> Inr (AList.delete ks fs @ [(kd, n)]))))"

definition unlink :: "string list \<Rightarrow> filesystem \<Rightarrow> path \<Rightarrow> string + filesystem" where
  "unlink wd fs p =
     (case locate wd fs p of
        Inl e \<Rightarrow> Inl (os_error e p)
      | Inr k \<Rightarrow>
          (case node_at fs k of
             Some (File content mtime) \<Rightarrow> Inr (AList.delete k fs)
           | Some Dir \<Rightarrow> Inl (''[Errno 21] Is a directory: '' @ [CHR 0x27] @ path_str p @ [CHR 0x27])
           | None \<Rightarrow> Inl (os_error ENOENT p)))"

text \<open>
  \<open>shutil.copytree(src, dst)\<close>: lists the source, refuses an existing destination, and
  copies everything that was below the source when the call started.
\<close>

definition copytree :: "string list \<Rightarrow> filesystem \<Rightarrow> path \<Rightarrow> path \<Rightarrow> string + filesystem" where
  "copytree wd fs src dst =
     (case locate wd fs src of
        Inl e \<Rightarrow> Inl (os_error e src)
      | Inr ks \<Rightarrow>
          (case node_at fs ks of
             None \<Rightarrow> Inl (os_error ENOENT src)
           | Some (File content mtime) \<Rightarrow> Inl (os_error ENOTDIR src)
           | Some Dir \<Rightarrow>
               (case locate wd fs dst of
                  Inl e \<Rightarrow> Inl (os_error e dst)
                | Inr kd \<Rightarrow>
                    if node_at fs kd \<noteq> None then Inl (os_error EEXIST dst)
                    else Inr (fs @ [(kd, Dir)] @
                              map (\<lambda>(q, n). (kd @ drop (length ks) q, n))
                                (filter (\<lambda>(q, n). length ks < length q \<and>
                                                   take (length ks) q = ks) fs)))))"

text \<open>\<open>str(n)\<close> for a natural number.\<close>

fun show_nat :: "nat \<Rightarrow> string" where
  "show_nat n =
     (if n < 10 then [''0123456789'' ! n]
      else show_nat (n div 10) @ [''0123456789'' ! (n mod 10)])"

declare show_nat.simps [simp del]

section \<open>File service (crystal/services/file_service.py)\<close>

text \<open>
  What the service takes from the operating system and the standard library: \<open>cwd\<close>
  is the working directory; \<open>resolve\<close> is \<open>Path.resolve()\<close>, which makes the path
  absolute, follows symbolic links, and raises on a path it cannot convert (a
  \<open>ValueError\<close> for a NUL character, a \<open>RuntimeError\<close> for a loop of links);
  \<open>sha256_hex\<close> is the SHA-256 digest of a content, \<open>guess_type\<close> the MIME type guessed
  from a file name, \<open>isoformat\<close> the ISO text of a modification time, \<open>utcnow\<close> and
  \<open>now_stamp\<close> the clock as the two call sites print it, and \<open>dir_size\<close> the
  \<open>st_size\<close> reported for a directory.
\<close>

record os_lib =
  cwd :: "string list"
  resolve :: "path \<Rightarrow> string + path"
  sha256_hex :: "string \<Rightarrow> string"
  guess_type :: "string \<Rightarrow> string option"
  isoformat :: "int \<Rightarrow> string"
  utcnow :: string
  now_stamp :: string
  dir_size :: nat

record file_service =
  svc_allowed_directories :: "path list"
  file_categories :: "(string \<times> string list) list"

definition new_file_service :: "settings \<Rightarrow> file_service" where
  "new_file_service cfg =
     \<lparr> svc_allowed_directories = map Path (allowed_directories cfg),
       file_categories =
         [(''documents'', [''.pdf'', ''.doc'', ''.docx'', ''.txt'', ''.rtf'', ''.odt'']),
          (''images'', [''.jpg'', ''.jpeg'', ''.png'', ''.gif'', ''.bmp'', ''.svg'', ''.tiff'']),
          (''videos'', [''.mp4'', ''.avi'', ''.mov'', ''.wmv'', ''.flv'', ''.mkv'', ''.webm'']),
          (''audio'', [''.mp3'', ''.wav'', ''.flac'', ''.aac'', ''.ogg'', ''.wma'']),
          (''archives'', [''.zip'', ''.rar'', ''.7z'', ''.tar'', ''.gz'', ''.bz2'']),
          (''code'', [''.py'', ''.js'', ''.html'', ''.css'', ''.cpp'', ''.java'', ''.cs'', ''.php'']),
          (''spreadsheets'', [''.xls'', ''.xlsx'', ''.csv'', ''.ods'']),
          (''presentations'', [''.ppt'', ''.pptx'', ''.odp''])] \<rparr>"

text \<open>
  \<open>_is_directory_allowed\<close>: the flag is tested first; otherwise the path is resolved,
  and an exception of \<open>resolve\<close> leaves the method (it has no handler).
\<close>

definition is_directory_allowed ::
  "settings \<Rightarrow> os_lib \<Rightarrow> file_service \<Rightarrow> path \<Rightarrow> string + bool" where
  "is_directory_allowed cfg os svc directory =
     (if \<not> allow_file_operations cfg then Inr False
      else
        case resolve os directory of
          Inl e \<Rightarrow> Inl e
        | Inr resolved \<Rightarrow>
            Inr (list_ex (\<lambda>allowed. is_relative_to resolved allowed)
                   (svc_allowed_directories svc)))"

definition get_file_category :: "file_service \<Rightarrow> path \<Rightarrow> string" where
  "get_file_category svc file_path =
     (case find (\<lambda>(category, extensions). lower (path_suffix file_path) \<in> set extensions)
             (file_categories svc) of
        Some (category, extensions) \<Rightarrow> category
      | None \<Rightarrow> ''other'')"

definition calculate_file_hash :: "os_lib \<Rightarrow> filesystem \<Rightarrow> path \<Rightarrow> string option" where
  "calculate_file_hash os fs file_path =
     (case stat (cwd os) fs file_path of
        Inr (File content mtime) \<Rightarrow> Some (sha256_hex os content)
      | _ \<Rightarrow> None)"

definition st_size :: "os_lib \<Rightarrow> filesystem \<Rightarrow> path \<Rightarrow> string + nat" where
  "st_size os fs p =
     (case stat (cwd os) fs p of
        Inl e \<Rightarrow> Inl e
      | Inr (File content mtime) \<Rightarrow> Inr (length content)
      | Inr Dir \<Rightarrow> Inr (dir_size os))"

definition are_files_identical ::
  "os_lib \<Rightarrow> filesystem \<Rightarrow> path \<Rightarrow> path \<Rightarrow> string + bool" where
  "are_files_identical os fs file1 file2 =
     (case st_size os fs file1 of
        Inl e \<Rightarrow> Inl e
      | Inr size1 \<Rightarrow>
          (case st_size os fs file2 of
             Inl e \<Rightarrow> Inl e
           | Inr size2 \<Rightarrow>
               if size1 \<noteq> size2 then Inr False
               else
                 let hash1 = calculate_file_hash os fs file1;
                     hash2 = calculate_file_hash os fs file2
                 in Inr (if truthy hash1 \<and> truthy hash2 then hash1 = hash2 else False)))"

definition create_backup :: "os_lib \<Rightarrow> filesystem \<Rightarrow> path \<Rightarrow> string + filesystem" where
  "create_backup os fs directory =
     copytree (cwd os) fs directory
       (child (path_parent directory) (path_name directory @ ''_backup_'' @ now_stamp os))"

text \<open>The longest name in the file system bounds the renaming loop.\<close>

definition max_name_len :: "filesystem \<Rightarrow> nat" where
  "max_name_len fs =
     foldr (\<lambda>(k, n) m. max (length (if k = [] then [] else last k)) m) fs 0"

text \<open>
  The loop \<open>while target_path.exists()\<close>: each round appends \<open>_counter\<close> to the stem of
  the current candidate, so the names grow and the loop ends.
\<close>

function unique_target :: "string list \<Rightarrow> filesystem \<Rightarrow> path \<Rightarrow> nat \<Rightarrow> path" where
  "unique_target wd fs target_path counter =
     (if path_exists wd fs target_path
      then unique_target wd fs
             (child (path_parent target_path)
                (path_stem target_path @ ''_'' @ show_nat counter @ path_suffix target_path))
             (counter + 1)
      else target_path)"
  by pat_completeness auto
termination
proof (relation "measure (\<lambda>(wd, fs, target_path, counter).
    max_name_len fs + 3 - length (path_name target_path))")
  show "wf (measure (\<lambda>(wd, fs, target_path, counter).
    max_name_len fs + 3 - length (path_name target_path)))"
    by simp
next
  fix wd :: "string list" and fs :: filesystem and target_path :: path and counter :: nat
  assume ex: "path_exists wd fs target_path"
  let ?new = "child (path_parent target_path)
    (path_stem target_path @ ''_'' @ show_nat counter @ path_suffix target_path)"
  have bound: "\<And>q n. (q, n) \<in> set fs \<Longrightarrow> q \<noteq> [] \<Longrightarrow> length (last q) \<le> max_name_len fs"
  proof -
    fix q n
    show "(q, n) \<in> set fs \<Longrightarrow> q \<noteq> [] \<Longrightarrow> length (last q) \<le> max_name_len fs"
      unfolding max_name_len_def by (induction fs) auto
  qed
  have walked: "\<And>cur cs k. walk fs cur cs = Inr k \<Longrightarrow> cs \<noteq> [] \<Longrightarrow> last cs \<noteq> ''..''
      \<Longrightarrow> k \<noteq> [] \<and> last k = last cs"
  proof -
    fix cur cs k
    show "walk fs cur cs = Inr k \<Longrightarrow> cs \<noteq> [] \<Longrightarrow> last cs \<noteq> ''..''
      \<Longrightarrow> k \<noteq> [] \<and> last k = last cs"
    proof (induction cs arbitrary: cur)
      case Nil
      then show ?case by simp
    next
      case (Cons c cs)
      show ?case
      proof (cases "cs = []")
        case True
        then show ?thesis
          using Cons.prems by (auto split: option.splits node.splits if_splits)
      next
        case False
        from Cons.prems(1) obtain cur' where "walk fs cur' cs = Inr k"
          by (auto split: option.splits node.splits)
        then show ?thesis
          using Cons.IH [of cur'] Cons.prems False by simp
      qed
    qed
  qed
  have old: "length (path_name target_path) \<le> max_name_len fs + 2"
  proof (cases "names target_path = [] \<or> last (names target_path) = ''..''")
    case True
    then show ?thesis by (auto simp: path_name_def)
  next
    case False
    let ?cs = "if anchor target_path = [] then wd @ names target_path else names target_path"
    from ex obtain k where k: "walk fs [] ?cs = Inr k" and node: "node_at fs k \<noteq> None"
      by (auto simp: path_exists_def stat_def locate_def split: sum.splits option.splits)
    have "?cs \<noteq> []" "last ?cs = last (names target_path)"
      using False by auto
    then have kl: "k \<noteq> [] \<and> last k = last (names target_path)"
      using walked [OF k] False by auto
    then obtain n where "map_of fs k = Some n"
      using node by (auto simp: node_at_def)
    then have kn: "(k, n) \<in> set fs" by (rule map_of_SomeD)
    have "k \<noteq> []" using kl by simp
    then have "length (last k) \<le> max_name_len fs" by (rule bound [OF kn])
    then show ?thesis using kl False by (simp add: path_name_def)
  qed
  have sizes: "length (path_stem target_path) + length (path_suffix target_path) =
      length (path_name target_path)"
  proof (cases "has_suffix (path_name target_path)")
    case True
    then have "length (extension_of (path_name target_path)) + 1 <
        length (path_name target_path)"
      unfolding has_suffix_def by blast
    then show ?thesis
      using True by (simp add: path_stem_def path_suffix_def)
  next
    case False
    then show ?thesis by (simp add: path_stem_def path_suffix_def)
  qed
  have "path_name ?new =
      path_stem target_path @ ''_'' @ show_nat counter @ path_suffix target_path"
    by (simp add: path_name_def child_def)
  then have new: "length (path_name target_path) < length (path_name ?new)"
    using sizes by simp
  show "((wd, fs, ?new, counter + 1), (wd, fs, target_path, counter)) \<in>
      measure (\<lambda>(wd, fs, target_path, counter).
        max_name_len fs + 3 - length (path_name target_path))"
    using old new by simp
qed

declare unique_target.simps [simp del]

text \<open>\<open>organized_files[category].append(entry)\<close>.\<close>

definition append_to ::
  "string \<Rightarrow> string \<Rightarrow> (string \<times> string list) list \<Rightarrow> (string \<times> string list) list" where
  "append_to category entry organized =
     map (\<lambda>(k, v). if k = category then (k, v @ [entry]) else (k, v)) organized"

text \<open>
  The body of the inner \<open>try\<close> for one file: the exception it raises (if any), the file
  system and the \<open>organized_files\<close> dictionary it leaves behind.
\<close>

definition process_file ::
  "settings \<Rightarrow> os_lib \<Rightarrow> file_service \<Rightarrow> path \<Rightarrow> bool \<Rightarrow> filesystem
     \<Rightarrow> (string \<times> string list) list \<Rightarrow> path
     \<Rightarrow> string option \<times> filesystem \<times> (string \<times> string list) list" where
  "process_file cfg os svc dir_path create_subdirs fs organized file_path =
     (let category = get_file_category svc file_path;
          made = (if create_subdirs then mkdir_exist_ok (cwd os) fs (child dir_path category)
                  else Inr fs);
          target_path =
            (if create_subdirs then child (child dir_path category) (path_name file_path)
             else child dir_path (category @ ''_'' @ path_name file_path))
      in case made of
           Inl e \<Rightarrow> (Some e, fs, organized)
         | Inr fs1 \<Rightarrow>
             if \<not> path_exists (cwd os) fs1 target_path then
               (case move (cwd os) fs1 file_path target_path of
                  Inl e \<Rightarrow> (Some e, fs1, organized)
                | Inr fs2 \<Rightarrow> (None, fs2, append_to category (path_str target_path) organized))
             else if duplicate_check_enabled cfg then
               (case are_files_identical os fs1 file_path target_path of
                  Inl e \<Rightarrow> (Some e, fs1, organized)
                | Inr identical \<Rightarrow>
                    if identical then
                      (case unlink (cwd os) fs1 file_path of
                         Inl e \<Rightarrow> (Some e, fs1, organized)
                       | Inr fs2 \<Rightarrow>
                           (None, fs2,
                            append_to category
                              (''Removed duplicate: '' @ path_name file_path) organized))
                    else
                      (let renamed = unique_target (cwd os) fs1 target_path 1 in
                       case move (cwd os) fs1 file_path renamed of
                         Inl e \<Rightarrow> (Some e, fs1, organized)
                       | Inr fs2 \<Rightarrow>
                           (None, fs2, append_to category (path_str renamed) organized)))
             else (None, fs1, organized))"

text \<open>The loop over the directory listing taken when the loop starts.\<close>

fun organize_files ::
  "settings \<Rightarrow> os_lib \<Rightarrow> file_service \<Rightarrow> path \<Rightarrow> bool
     \<Rightarrow> filesystem \<times> (string \<times> string list) list \<times> string list \<Rightarrow> path list
     \<Rightarrow> filesystem \<times> (string \<times> string list) list \<times> string list" where
  "organize_files cfg os svc dir_path create_subdirs acc [] = acc"
| "organize_files cfg os svc dir_path create_subdirs (fs, organized, errors) (file_path # rest) =
     (if is_file (cwd os) fs file_path then
        (case process_file cfg os svc dir_path create_subdirs fs organized file_path of
           (Some e, fs', organized') \<Rightarrow>
             organize_files cfg os svc dir_path create_subdirs
               (fs', organized',
                errors @ [''Error processing '' @ path_name file_path @ '': '' @ e]) rest
         | (None, fs', organized') \<Rightarrow>
             organize_files cfg os svc dir_path create_subdirs (fs', organized', errors) rest)
      else organize_files cfg os svc dir_path create_subdirs (fs, organized, errors) rest)"

text \<open>
  The three public methods. \<open>Inl\<close> is an exception that leaves the method: the
  permission check runs before the \<open>try\<close>. Each result comes with the file system the
  call leaves behind where the method can change it.
\<close>

definition organize_directory ::
  "settings \<Rightarrow> os_lib \<Rightarrow> file_service \<Rightarrow> filesystem \<Rightarrow> string \<Rightarrow> bool
     \<Rightarrow> (string + pydict) \<times> filesystem" where
  "organize_directory cfg os svc fs directory_path create_subdirs =
     (let dir_path = Path directory_path in
      case is_directory_allowed cfg os svc dir_path of
        Inl e \<Rightarrow> (Inl e, fs)
      | Inr allowed \<Rightarrow>
          if \<not> allowed then
            (Inr [(''success'', JBool False),
                  (''error'', JStr (''Directory '' @ directory_path @
                                    '' is not in the allowed directories list''))], fs)
          else if \<not> path_exists (cwd os) fs dir_path \<or> \<not> is_dir (cwd os) fs dir_path then
            (Inr [(''success'', JBool False),
                  (''error'', JStr (''Directory '' @ directory_path @
                                    '' does not exist or is not a directory''))], fs)
          else
            (case (if backup_before_organize cfg then create_backup os fs dir_path
                   else Inr fs) of
               Inl e \<Rightarrow>
                 (Inr [(''success'', JBool False), (''error'', JStr e),
                       (''timestamp'', JStr (utcnow os))], fs)
             | Inr fs1 \<Rightarrow>
                 (case iterdir (cwd os) fs1 dir_path of
                    Inl e \<Rightarrow>
                      (Inr [(''success'', JBool False), (''error'', JStr e),
                            (''timestamp'', JStr (utcnow os))], fs1)
                  | Inr listing \<Rightarrow>
                      (let (fs2, organized_files, errors) =
                             organize_files cfg os svc dir_path create_subdirs
                               (fs1,
                                map (\<lambda>(category, extensions). (category, []))
                                  (file_categories svc) @ [(''other'', [])], [])
                               listing
                       in (Inr [(''success'', JBool True),
                                (''organized_files'',
                                   JDict (map (\<lambda>(k, files). (k, JList (map JStr files)))
                                            organized_files)),
                                (''total_files'',
                                   JInt (int (sum_list (map (\<lambda>(k, files). length files)
                                                          organized_files)))),
                                (''errors'', JList (map JStr errors)),
                                (''timestamp'', JStr (utcnow os))], fs2)))))"

text \<open>\<open>file_hashes[file_hash].append(str(file_path))\<close>, creating the group when new.\<close>

definition add_hash ::
  "string \<Rightarrow> string \<Rightarrow> (string \<times> string list) list \<Rightarrow> (string \<times> string list) list" where
  "add_hash h p groups =
     (if h \<in> fst ` set groups then append_to h p groups else groups @ [(h, [p])])"

fun hash_files ::
  "os_lib \<Rightarrow> filesystem \<Rightarrow> (string \<times> string list) list \<Rightarrow> path list
     \<Rightarrow> (string \<times> string list) list" where
  "hash_files os fs groups [] = groups"
| "hash_files os fs groups (file_path # rest) =
     (if is_file (cwd os) fs file_path \<and> truthy (calculate_file_hash os fs file_path)
      then hash_files os fs
             (add_hash (str_of (calculate_file_hash os fs file_path)) (path_str file_path) groups)
             rest
      else hash_files os fs groups rest)"

definition find_duplicates ::
  "settings \<Rightarrow> os_lib \<Rightarrow> file_service \<Rightarrow> filesystem \<Rightarrow> string \<Rightarrow> string + pydict" where
  "find_duplicates cfg os svc fs directory_path =
     (let dir_path = Path directory_path in
      case is_directory_allowed cfg os svc dir_path of
        Inl e \<Rightarrow> Inl e
      | Inr allowed \<Rightarrow>
          if \<not> allowed then
            Inr [(''success'', JBool False), (''error'', JStr ''Directory not allowed'')]
          else if \<not> path_exists (cwd os) fs dir_path then
            Inr [(''success'', JBool False), (''error'', JStr ''Directory does not exist'')]
          else
            (let file_hashes = hash_files os fs [] (rglob (cwd os) fs dir_path);
                 duplicates = filter (\<lambda>(hash_val, files). length files > 1) file_hashes
             in Inr [(''success'', JBool True),
                     (''duplicate_groups'', JInt (int (length duplicates))),
                     (''total_duplicates'',
                        JInt (int (sum_list (map (\<lambda>(hash_val, files). length files - 1)
                                               duplicates)))),
                     (''duplicates'',
                        JDict (map (\<lambda>(hash_val, files). (hash_val, JList (map JStr files)))
                                 duplicates)),
                     (''timestamp'', JStr (utcnow os))]))"

definition is_text_file :: "os_lib \<Rightarrow> path \<Rightarrow> bool" where
  "is_text_file os file_path =
     (case guess_type os (path_str file_path) of
        Some mime_type \<Rightarrow> mime_type \<noteq> [] \<and> startswith mime_type ''text/''
      | None \<Rightarrow> False)"

definition match_entry :: "os_lib \<Rightarrow> path \<Rightarrow> string \<Rightarrow> int \<Rightarrow> string \<Rightarrow> jv" where
  "match_entry os file_path content mtime match_type =
     JDict [(''path'', JStr (path_str file_path)),
            (''name'', JStr (path_name file_path)),
            (''size'', JInt (int (length content))),
            (''modified'', JStr (isoformat os mtime)),
            (''match_type'', JStr match_type)]"

fun search_matches ::
  "os_lib \<Rightarrow> filesystem \<Rightarrow> string \<Rightarrow> bool \<Rightarrow> path list \<Rightarrow> jv list" where
  "search_matches os fs pattern include_content [] = []"
| "search_matches os fs pattern include_content (file_path # rest) =
     (case stat (cwd os) fs file_path of
        Inr (File content mtime) \<Rightarrow>
          (if str_in (lower pattern) (lower (path_name file_path))
           then match_entry os file_path content mtime ''filename'' #
                search_matches os fs pattern include_content rest
           else if include_content \<and> is_text_file os file_path \<and>
                   str_in (lower pattern) (lower content)
           then match_entry os file_path content mtime ''content'' #
                search_matches os fs pattern include_content rest
           else search_matches os fs pattern include_content rest)
      | _ \<Rightarrow> search_matches os fs pattern include_content rest)"

definition search_files ::
  "settings \<Rightarrow> os_lib \<Rightarrow> file_service \<Rightarrow> filesystem \<Rightarrow> string \<Rightarrow> string \<Rightarrow> bool
     \<Rightarrow> string + pydict" where
  "search_files cfg os svc fs directory_path pattern include_content =
     (let dir_path = Path directory_path in
      case is_directory_allowed cfg os svc dir_path of
        Inl e \<Rightarrow> Inl e
      | Inr allowed \<Rightarrow>
          if \<not> allowed then
            Inr [(''success'', JBool False), (''error'', JStr ''Directory not allowed'')]
          else
            (let matches = search_matches os fs pattern include_content
                             (rglob (cwd os) fs dir_path)
             in Inr [(''success'', JBool True),
                     (''matches'', JList matches),
                     (''count'', JInt (int (length matches))),
                     (''pattern'', JStr pattern),
                     (''timestamp'', JStr (utcnow os))]))"

text \<open>
  The \<open>success\<close> entry of the dictionary a public method returns; \<open>None\<close> when the
  method raised instead of returning.
\<close>

fun success_of :: "string + pydict \<Rightarrow> jv option" where
  "success_of (Inl e) = None"
| "success_of (Inr result) = map_of result ''success''"

text \<open>
  \<open>Path.resolve()\<close> on a file system without symbolic links: a NUL character is
  refused with a \<open>ValueError\<close>; otherwise the path is made absolute and \<open>..\<close> is
  removed with the name before it.
\<close>

definition collapse :: "string list \<Rightarrow> string list" where
  "collapse cs = foldl (\<lambda>acc c. if c = ''..'' then butlast acc else acc @ [c]) [] cs"

definition realpath :: "string list \<Rightarrow> path \<Rightarrow> string + path" where
  "realpath working_directory p =
     (if CHR 0x00 \<in> set (concat (names p)) then Inl ''embedded null byte''
      else Inr \<lparr> anchor = ''/'',
                 names = collapse (if anchor p = [] then working_directory @ names p
                                   else names p) \<rparr>)"

text \<open>A small world for the file service: working directory \<open>/home/user\<close>.\<close>

definition plain_os :: os_lib where
  "plain_os =
     \<lparr> cwd = [''home'', ''user''],
       resolve = realpath [''home'', ''user''],
       sha256_hex = (\<lambda>content. ''sha256:'' @ content),
       guess_type = (\<lambda>name. None),
       isoformat = (\<lambda>t. ''1970-01-01T00:00:00''),
       utcnow = ''2024-01-01T00:00:00'',
       now_stamp = ''20240101_000000'',
       dir_size = 4096 \<rparr>"

definition home_fs :: filesystem where
  "home_fs =
     [([''home''], Dir), ([''home'', ''user''], Dir),
      ([''home'', ''user'', ''Documents''], Dir),
      ([''home'', ''user'', ''Documents'', ''a.txt''], File ''alpha'' 1),
      ([''home'', ''user'', ''Documents'', ''b.png''], File ''beta'' 2),
      ([''etc''], Dir),
      ([''etc'', ''passwd''], File ''root'' 3)]"

text \<open>The path \<open>/tmp/\<close>NUL\<open>x\<close>: outside every allowed root, and not convertible.\<close>

definition nul_path :: string where
  "nul_path = ''/tmp/'' @ [CHR 0x00] @ ''x''"

section \<open>Assistant persona (crystal/core/crystal_assistant.py)\<close>

text \<open>
  A capability description or personality trait is a string, or the value \<open>True\<close>
  (a trait written without a colon); \<open>py_str\<close> is how an f-string prints it.
\<close>

datatype py_val = PyStr string | PyTrue

fun py_str :: "py_val \<Rightarrow> string" where
  "py_str (PyStr s) = s"
| "py_str PyTrue = ''True''"

record assistant_config =
  instructions_file :: "string option"
  preferred_model :: "string option"
  config_capabilities :: "(string \<times> py_val) list"

record crystal_assistant =
  name :: string
  config :: assistant_config
  is_active :: bool
  instructions :: string
  capabilities :: "(string \<times> py_val) list"
  personality_traits :: "(string \<times> py_val) list"

definition new_assistant :: "string \<Rightarrow> assistant_config \<Rightarrow> crystal_assistant" where
  "new_assistant assistant_name cfg =
     \<lparr> name = assistant_name, config = cfg, is_active = False, instructions = [],
       capabilities = [], personality_traits = [] \<rparr>"

definition generic_greeting :: "string \<Rightarrow> string" where
  "generic_greeting assistant_name =
     ''I am '' @ assistant_name @ '', your assistant. How can I help you today?''"

text \<open>
  \<open>_load_instructions\<close> reads the configured file from the file system (\<open>wd\<close> is the
  working directory); an unconfigured file, a missing file and a failed read all leave
  the generic greeting as instructions.
\<close>

definition read_text :: "string list \<Rightarrow> filesystem \<Rightarrow> path \<Rightarrow> string + string" where
  "read_text wd fs p =
     (case stat wd fs p of
        Inl e \<Rightarrow> Inl e
      | Inr (File content mtime) \<Rightarrow> Inr content
      | Inr Dir \<Rightarrow> Inl (''[Errno 21] Is a directory: '' @ [CHR 0x27] @ path_str p @ [CHR 0x27]))"

definition load_instructions ::
  "string list \<Rightarrow> filesystem \<Rightarrow> crystal_assistant \<Rightarrow> crystal_assistant" where
  "load_instructions wd fs a =
     (if \<not> truthy (instructions_file (config a))
      then a\<lparr>instructions := generic_greeting (name a)\<rparr>
      else
        let instructions_path = Path (str_of (instructions_file (config a))) in
        if path_exists wd fs instructions_path then
          (case read_text wd fs instructions_path of
             Inr text \<Rightarrow> a\<lparr>instructions := text\<rparr>
           | Inl e \<Rightarrow> a\<lparr>instructions := generic_greeting (name a)\<rparr>)
        else a\<lparr>instructions := generic_greeting (name a)\<rparr>)"

definition replace_spaces :: "string \<Rightarrow> string" where
  "replace_spaces s = map (\<lambda>c. if c = CHR '' '' then CHR ''_'' else c) s"

text \<open>The line scanner of \<open>_parse_personality_from_instructions\<close>.\<close>

fun parse_personality_lines ::
  "bool \<Rightarrow> (string \<times> py_val) list \<Rightarrow> string list \<Rightarrow> (string \<times> py_val) list" where
  "parse_personality_lines in_section traits [] = traits"
| "parse_personality_lines in_section traits (raw # rest) =
     (let line = strip raw in
      if str_in ''personality'' (lower line) \<or> str_in ''traits'' (lower line)
      then parse_personality_lines True traits rest
      else if in_section \<and> startswith line ''-'' then
        (let trait = strip (tl line) in
         if CHR '':'' \<in> set trait then
           parse_personality_lines in_section
             (AList.update
                (replace_spaces (lower (strip (takeWhile (\<lambda>c. c \<noteq> CHR '':'') trait))))
                (PyStr (strip (tl (dropWhile (\<lambda>c. c \<noteq> CHR '':'') trait)))) traits)
             rest
         else
           parse_personality_lines in_section
             (AList.update (replace_spaces (lower trait)) PyTrue traits) rest)
      else if in_section \<and> line \<noteq> [] \<and> \<not> startswith line ''#'' then traits
      else parse_personality_lines in_section traits rest)"

definition parse_personality_from_instructions ::
  "crystal_assistant \<Rightarrow> (string \<times> py_val) list" where
  "parse_personality_from_instructions a =
     parse_personality_lines False [] (split_on (CHR 0x0A) (instructions a))"

definition load_capabilities :: "crystal_assistant \<Rightarrow> crystal_assistant" where
  "load_capabilities a =
     (let a1 = a\<lparr>capabilities := config_capabilities (config a)\<rparr> in
      if str_in ''personality'' (lower (instructions a1)) \<or>
         str_in ''traits'' (lower (instructions a1))
      then a1\<lparr>personality_traits := parse_personality_from_instructions a1\<rparr>
      else a1)"

definition assistant_initialize ::
  "string list \<Rightarrow> filesystem \<Rightarrow> crystal_assistant \<Rightarrow> crystal_assistant" where
  "assistant_initialize wd fs a =
     load_capabilities (load_instructions wd fs (a\<lparr>is_active := True\<rparr>))"

text \<open>The history part of \<open>_build_context_prompt\<close>: two prompt parts per retained entry.\<close>

fun history_parts :: "string \<Rightarrow> hist_entry list \<Rightarrow> string + string list" where
  "history_parts assistant_name [] = Inr []"
| "history_parts assistant_name (NotADict ty # rest) = Inl (attribute_error ty)"
| "history_parts assistant_name (Entry d # rest) =
     (case history_parts assistant_name rest of
        Inl e \<Rightarrow> Inl e
      | Inr parts \<Rightarrow>
          Inr ([''User: '' @ dict_get_or d ''user'' [],
                assistant_name @ '': '' @ dict_get_or d ''assistant'' []] @ parts))"

definition render_items :: "(string \<times> py_val) list \<Rightarrow> string" where
  "render_items items = join [CHR 0x0A] (map (\<lambda>(k, v). ''- '' @ k @ '': '' @ py_str v) items)"

definition build_context_prompt ::
  "crystal_assistant \<Rightarrow> string \<Rightarrow> chat_context \<Rightarrow> string + string" where
  "build_context_prompt a message ctx =
     (let parts1 = (if instructions a \<noteq> [] then [instructions a] else []);
          parts2 = (if capabilities a \<noteq> []
                    then [''Available capabilities:'' @ [CHR 0x0A] @ render_items (capabilities a)]
                    else []);
          parts3 = (if personality_traits a \<noteq> []
                    then [''Personality traits to embody:'' @ [CHR 0x0A] @
                          render_items (personality_traits a)]
                    else []);
          closing =
            [''---'',
             ''Current user message: '' @ message,
             ''Please respond as '' @ name a @
               '', following all instructions and embodying the personality traits above.'']
      in
      if conversation_history ctx \<noteq> [] then
        (case history_parts (name a) (last3 (conversation_history ctx)) of
           Inl e \<Rightarrow> Inl e
         | Inr hist \<Rightarrow>
             Inr (join [CHR 0x0A, CHR 0x0A]
                    (parts1 @ parts2 @ parts3 @ [''Recent conversation context:''] @ hist @
                     closing)))
      else Inr (join [CHR 0x0A, CHR 0x0A] (parts1 @ parts2 @ parts3 @ closing)))"

text \<open>
  The AI service is handed to the persona at construction, so \<open>process_message\<close> is
  modelled over any service: \<open>generate ai prompt model context\<close> is the outcome of
  \<open>ai_service.generate_response(message=prompt, model=model, context=context)\<close> (a
  returned text, or a raised exception) and the service's next state.
\<close>

type_synonym 'ai generator =
  "'ai \<Rightarrow> string \<Rightarrow> string option \<Rightarrow> chat_context option \<Rightarrow> (string + string) \<times> 'ai"

definition processing_apology :: string where
  "processing_apology = ''I apologize, but I encountered an error processing your request. '' @
     ''Please try again or contact support if the problem persists.''"

definition default_preferred_model :: string where
  "default_preferred_model = ''llama3.1:8b''"

text \<open>
  \<open>process_message\<close> returns the envelope, or the exception that escapes it (prompt
  assembly is outside the \<open>try\<close>), with the persona and the service as they are left.
  The envelope of the \<open>except\<close> branch is the error envelope of the persona: its action
  is \<open>error_occurred\<close> and its metadata carry the error text.
\<close>

definition process_message ::
  "'ai generator \<Rightarrow> string list \<Rightarrow> filesystem \<Rightarrow> string \<Rightarrow> crystal_assistant \<Rightarrow> 'ai
     \<Rightarrow> string \<Rightarrow> chat_context \<Rightarrow> (string + pydict) \<times> crystal_assistant \<times> 'ai" where
  "process_message generate wd fs now a0 ai message ctx =
     (let a = load_instructions wd fs a0 in
      case build_context_prompt a message ctx of
        Inl e \<Rightarrow> (Inl e, a, ai)
      | Inr full_prompt \<Rightarrow>
          (case generate ai full_prompt
                  (Some (case preferred_model (config a) of
                           Some m \<Rightarrow> m
                         | None \<Rightarrow> default_preferred_model))
                  (Some ctx) of
             (Inr ai_response, ai') \<Rightarrow>
               (Inr [(''message'', JStr (strip ai_response)),
                     (''actions'', JList [JStr ''message_processed'']),
                     (''metadata'', JDict
                        [(''assistant'', JStr (lower (name a))),
                         (''instructions_version'', JInt (int (length (instructions a)))),
                         (''capabilities_used'', JList (map (\<lambda>(k, v). JStr k) (capabilities a))),
                         (''processing_time'', JStr now)])],
                a, ai')
           | (Inl e, ai') \<Rightarrow>
               (Inr [(''message'', JStr processing_apology),
                     (''actions'', JList [JStr ''error_occurred'']),
                     (''metadata'', JDict
                        [(''assistant'', JStr (lower (name a))),
                         (''error'', JStr e),
                         (''processing_time'', JStr now)])],
                a, ai')))"

section \<open>Ruby (crystal/assistants/ruby.py) and the orchestrator (crystal/core/orchestrator.py)\<close>

definition ruby_config :: assistant_config where
  "ruby_config =
     \<lparr> instructions_file = Some ''crystal/assistants/instructions/ruby_instructions.md'',
       preferred_model = Some ''gpt-4o-mini'',
       config_capabilities =
         [(''schedule_management'', PyStr ''Manage calendars, appointments, and reminders''),
          (''file_organization'', PyStr ''Organize, search, and manage files and folders''),
          (''task_automation'', PyStr ''Create and execute automated workflows''),
          (''system_monitoring'', PyStr ''Monitor system resources and performance''),
          (''general_assistance'', PyStr ''Provide helpful information and support'')] \<rparr>"

definition ruby_assistant :: crystal_assistant where
  "ruby_assistant = new_assistant ''Ruby'' ruby_config"

text \<open>
  Everything outside the orchestrator: the settings, the model servers, the scheduling
  library, the text of the \<open>TypeError\<close> of \<open>system_event\<close>, the working directory and
  the files the instructions are read from, and the clock.
\<close>

record world =
  w_settings :: settings
  w_backends :: backends
  w_scheduler_lib :: scheduler_lib
  w_logger_error :: string
  w_cwd :: "string list"
  w_files :: filesystem
  w_now :: string

text \<open>
  The orchestrator. The personas hold a reference to the orchestrator's AI service, so
  the service state lives here and is passed to the persona on each call.
  \<open>persona_calls\<close> is a ghost field: the (persona, message) pairs for which a persona's
  \<open>process_message\<close> was invoked, oldest first.
\<close>

record orchestrator =
  assistants :: "(string \<times> crystal_assistant) list"
  ai_service_of :: "ai_service option"
  task_scheduler_of :: "task_scheduler option"
  file_service_of :: "file_service option"
  is_initialized :: bool
  persona_calls :: "(string \<times> string) list"

definition new_orchestrator :: orchestrator where
  "new_orchestrator =
     \<lparr> assistants = [], ai_service_of = None, task_scheduler_of = None,
       file_service_of = None, is_initialized = False, persona_calls = [] \<rparr>"

text \<open>
  \<open>initialize\<close>: the raised exception (if any) and the orchestrator as the call
  leaves it. The first \<open>system_event\<close> call stands before the \<open>try\<close>; an exception
  inside the \<open>try\<close> is logged and raised again. The services are objects the
  orchestrator already holds when their own start-up raises.
\<close>

definition initialize :: "world \<Rightarrow> orchestrator \<Rightarrow> string option \<times> orchestrator" where
  "initialize w orch =
     (if is_initialized orch then (None, orch)
      else
        case system_event (w_logger_error w) ''orchestrator_startup'' of
          Some e \<Rightarrow> (Some e, orch)
        | None \<Rightarrow>
            (case ai_initialize (w_settings w) (w_backends w) new_ai_service of
               (Some e, ai) \<Rightarrow> (Some e, orch\<lparr>ai_service_of := Some ai\<rparr>)
             | (None, ai) \<Rightarrow>
                 (case scheduler_start (w_settings w) (w_scheduler_lib w) (w_now w)
                         new_task_scheduler of
                    (Some e, ts) \<Rightarrow>
                      (Some e, orch\<lparr>ai_service_of := Some ai, task_scheduler_of := Some ts\<rparr>)
                  | (None, ts) \<Rightarrow>
                      (let o3 = orch\<lparr>ai_service_of := Some ai,
                                     task_scheduler_of := Some ts,
                                     file_service_of := Some (new_file_service (w_settings w))\<rparr>;
                           o4 = o3\<lparr>assistants := AList.update ''ruby''
                                     (assistant_initialize (w_cwd w) (w_files w) ruby_assistant)
                                     (assistants o3)\<rparr>;
                           o5 = o4\<lparr>is_initialized := True\<rparr>
                       in (system_event (w_logger_error w) ''orchestrator_ready'', o5)))))"

text \<open>
  The persona's view of the orchestrator's AI service: an exception of
  \<open>generate_response\<close> reaches the persona.
\<close>

definition none_type_error :: string where
  "none_type_error = [CHR 0x27] @ ''NoneType'' @ [CHR 0x27] @ '' object has no attribute '' @
     [CHR 0x27] @ ''generate_response'' @ [CHR 0x27]"

definition crystal_generate :: "world \<Rightarrow> ai_service option generator" where
  "crystal_generate w ai prompt model ctx =
     (case ai of
        None \<Rightarrow> (Inl none_type_error, None)
      | Some s \<Rightarrow>
          (let (outcome, s') =
                 generate_response (w_settings w) (w_backends w) s prompt model ctx None
           in (outcome, Some s')))"

definition dict_get :: "pydict \<Rightarrow> string \<Rightarrow> jv \<Rightarrow> jv" where
  "dict_get d k dflt = (case map_of d k of Some v \<Rightarrow> v | None \<Rightarrow> dflt)"

text \<open>
  \<open>CrystalOrchestrator.process_message\<close>: the envelope, or the exception of a failed
  \<open>initialize\<close>, and the orchestrator afterwards.
\<close>

definition orchestrator_process_message ::
  "world \<Rightarrow> orchestrator \<Rightarrow> string \<Rightarrow> string \<Rightarrow> chat_context option
     \<Rightarrow> (string + pydict) \<times> orchestrator" where
  "orchestrator_process_message w orch0 assistant_name0 message ctx =
     (case (if \<not> is_initialized orch0 then initialize w orch0 else (None, orch0)) of
        (Some e, orch) \<Rightarrow> (Inl e, orch)
      | (None, orch) \<Rightarrow>
          (let assistant_name = lower assistant_name0 in
           case map_of (assistants orch) assistant_name of
             None \<Rightarrow>
               (Inr [(''message'', JStr (''Assistant '' @ [CHR 0x27] @ assistant_name @ [CHR 0x27] @
                                         '' not found. Available: '' @
                                         join '', '' (map fst (assistants orch)))),
                     (''assistant'', JStr ''system''),
                     (''error'', JBool True)],
                orch)
           | Some assistant \<Rightarrow>
               (case process_message (crystal_generate w) (w_cwd w) (w_files w) (w_now w)
                       assistant
                       (ai_service_of orch) message
                       (case ctx of Some c \<Rightarrow> c | None \<Rightarrow> \<lparr>conversation_history = []\<rparr>) of
                  (Inr response, assistant', ai') \<Rightarrow>
                    (Inr [(''message'', dict_get response ''message'' (JStr [])),
                          (''assistant'', JStr assistant_name),
                          (''timestamp'', JStr (w_now w)),
                          (''actions_taken'', dict_get response ''actions'' (JList [])),
                          (''metadata'', dict_get response ''metadata'' (JDict []))],
                     orch\<lparr>assistants := AList.update assistant_name assistant' (assistants orch),
                          ai_service_of := ai',
                          persona_calls := persona_calls orch @ [(assistant_name, message)]\<rparr>)
                | (Inl e, assistant', ai') \<Rightarrow>
                    (Inr [(''message'', JStr (''Sorry, I encountered an error: '' @ e)),
                          (''assistant'', JStr assistant_name),
                          (''error'', JBool True),
                          (''timestamp'', JStr (w_now w))],
                     orch\<lparr>assistants := AList.update assistant_name assistant' (assistants orch),
                          ai_service_of := ai',
                          persona_calls := persona_calls orch @ [(assistant_name, message)]\<rparr>))))"

text \<open>Worlds for exercising the orchestrator: no instruction files on disk.\<close>

definition offline_world :: world where
  "offline_world =
     \<lparr> w_settings = default_settings, w_backends = offline_backends,
       w_scheduler_lib = strict_lib,
       w_logger_error = logger_error offline_backends,
       w_cwd = [''home'', ''user''], w_files = [], w_now = ''2024-01-01T00:00:00'' \<rparr>"

definition empty_content_world :: world where
  "empty_content_world =
     \<lparr> w_settings = keyed_settings, w_backends = empty_content_backends,
       w_scheduler_lib = strict_lib,
       w_logger_error = logger_error empty_content_backends,
       w_cwd = [''home'', ''user''], w_files = [], w_now = ''2024-01-01T00:00:00'' \<rparr>"

definition initialized_ruby :: crystal_assistant where
  "initialized_ruby = assistant_initialize [''home'', ''user''] [] ruby_assistant"

text \<open>
  An orchestrator with the fields \<open>initialize\<close> assigns, set by hand: \<open>initialize\<close>
  itself does not get that far. The AI service is given.
\<close>

definition ready_orchestrator :: "ai_service \<Rightarrow> orchestrator" where
  "ready_orchestrator ai =
     \<lparr> assistants = [(''ruby'', initialized_ruby)],
       ai_service_of = Some ai,
       task_scheduler_of = Some started_task_scheduler,
       file_service_of = Some (new_file_service default_settings),
       is_initialized = True,
       persona_calls = [] \<rparr>"

definition one_turn_context :: chat_context where
  "one_turn_context =
     \<lparr>conversation_history = [Entry [(''user'', ''hi''), (''assistant'', ''Hello!'')]]\<rparr>"

section \<open>Properties of the AI service\<close>

lemma system_event_raises: "system_event type_error event = Some type_error"
  by (simp add: system_event_def)

lemma ai_initialize_fresh:
  "\<not> ai_is_initialized s \<Longrightarrow> ai_initialize cfg ext s = (Some (logger_error ext), s)"
  by (simp add: ai_initialize_def system_event_def)

lemma generate_response_fresh:
  "\<not> ai_is_initialized s0 \<Longrightarrow>
     generate_response cfg ext s0 message model_hint ctx mt = (Inl (logger_error ext), s0)"
  by (simp add: generate_response_def ai_initialize_fresh)

lemma generate_response_initialized:
  "ai_is_initialized s0 \<Longrightarrow>
     generate_response cfg ext s0 message model_hint ctx mt =
       (Inr (fst (dispatch cfg ext s0 message (resolve_model cfg s0 message model_hint) ctx mt)),
        snd (dispatch cfg ext s0 message (resolve_model cfg s0 message model_hint) ctx mt))"
  by (simp add: generate_response_def split: prod.splits)

lemma generate_local_response_clients:
  "openai_client (snd (generate_local_response cfg ext s message model ctx mt)) = openai_client s"
  by (simp add: generate_local_response_def Let_def split: sum.splits)

lemma generate_local_response_no_client:
  "ollama_client s = None \<Longrightarrow>
     generate_local_response cfg ext s message model ctx mt = (None, s)"
  by (simp add: generate_local_response_def)

lemma generate_local_response_openai_calls:
  "filter (\<lambda>c. \<not> is_ollama_call c)
     (calls (snd (generate_local_response cfg ext s message model ctx mt))) =
   filter (\<lambda>c. \<not> is_ollama_call c) (calls s)"
  by (simp add: generate_local_response_def Let_def split: sum.splits)

lemma generate_openai_response_result:
  assumes "openai_client s \<noteq> None"
  shows "caught (generate_openai_response cfg ext s message model ctx mt) =
     ((case openai_create ext model (chat_messages message ctx)
              (int_or mt (openai_max_tokens cfg)) of
         Inl e \<Rightarrow> generation_error e
       | Inr [] \<Rightarrow> generation_error ''list index out of range''
       | Inr (Some c # rest) \<Rightarrow> c
       | Inr (None # rest) \<Rightarrow> no_content_apology),
      s\<lparr>calls := calls s @ [OpenAICreate model (chat_messages message ctx)
                               (int_or mt (openai_max_tokens cfg))]\<rparr>)"
proof -
  have c: "(openai_client s = None) = False" using assms by simp
  show ?thesis
    unfolding generate_openai_response_def Let_def c
    by (simp add: caught_def split: sum.splits list.splits option.splits)
qed

text \<open>The four branches of the dispatch, one lemma each.\<close>

lemma dispatch_local_first:
  assumes "use_local_first cfg" and "is_local_model s model"
  shows "dispatch cfg ext s message model ctx max_tokens =
     (let (response, s1) =
            (if model \<in> set (available_local_models s)
             then generate_local_response cfg ext s message model ctx max_tokens
             else (None, s))
      in if truthy response then (str_of response, s1)
         else if fallback_to_api cfg \<and> openai_client s1 \<noteq> None
         then caught (generate_openai_response cfg ext s1 message (openai_model cfg)
                        ctx max_tokens)
         else (degraded_message, s1))"
proof -
  have c: "(use_local_first cfg \<and> is_local_model s model) = True"
    using assms by simp
  show ?thesis unfolding dispatch_def c by simp
qed

lemma dispatch_remote:
  assumes "\<not> (use_local_first cfg \<and> is_local_model s model)"
    and "openai_client s \<noteq> None" and "is_openai_model model"
  shows "dispatch cfg ext s message model ctx max_tokens =
     caught (generate_openai_response cfg ext s message model ctx max_tokens)"
proof -
  have c1: "(use_local_first cfg \<and> is_local_model s model) = False"
    using assms(1) by simp
  have c2: "(openai_client s \<noteq> None \<and> is_openai_model model) = True"
    using assms(2,3) by simp
  show ?thesis unfolding dispatch_def c1 c2 by simp
qed

lemma dispatch_no_backend:
  assumes "\<not> (use_local_first cfg \<and> is_local_model s model)"
    and "\<not> (openai_client s \<noteq> None \<and> is_openai_model model)"
    and "\<not> (ollama_client s \<noteq> None \<and> available_local_models s \<noteq> [])"
  shows "dispatch cfg ext s message model ctx max_tokens = (degraded_message, s)"
proof -
  have c1: "(use_local_first cfg \<and> is_local_model s model) = False"
    using assms(1) by simp
  have c2: "(openai_client s \<noteq> None \<and> is_openai_model model) = False"
    using assms(2) by simp
  have c3: "(ollama_client s \<noteq> None \<and> available_local_models s \<noteq> []) = False"
    using assms(3) by simp
  show ?thesis unfolding dispatch_def c1 c2 c3 by simp
qed

text \<open>
  On a service that is already initialised the dispatch does what the specification
  describes: without any backend it answers with the degraded-service sentence, and a
  failed local attempt falls back to the remote backend with \<open>settings.openai_model\<close>.
\<close>

lemma initialized_service_degraded:
  assumes "ai_is_initialized s0" and "openai_client s0 = None"
    and "ollama_client s0 = None \<or> available_local_models s0 = []"
  shows "fst (generate_response cfg ext s0 message model_hint ctx max_tokens) =
           Inr degraded_message"
proof -
  define model where "model = resolve_model cfg s0 message model_hint"
  have no_local: "\<not> (ollama_client s0 \<noteq> None \<and> available_local_models s0 \<noteq> [])"
    using assms(3) by auto
  have "fst (dispatch cfg ext s0 message model ctx max_tokens) = degraded_message"
  proof (cases "use_local_first cfg \<and> is_local_model s0 model")
    case True
    have local_none: "model \<in> set (available_local_models s0) \<Longrightarrow>
        generate_local_response cfg ext s0 message model ctx max_tokens = (None, s0)"
      using no_local by (cases "available_local_models s0")
        (auto simp: generate_local_response_no_client)
    show ?thesis
      using True assms(2) local_none
      by (cases "model \<in> set (available_local_models s0)")
         (simp_all add: dispatch_local_first truthy_def)
  next
    case False
    then show ?thesis
      using assms(2) no_local by (simp add: dispatch_no_backend)
  qed
  then show ?thesis
    by (simp add: generate_response_initialized [OF assms(1)] model_def)
qed

lemma initialized_service_falls_back:
  assumes "ai_is_initialized s"
    and model: "model = resolve_model cfg s message model_hint"
    and "use_local_first cfg" and "is_local_model s model"
    and fails: "model \<in> set (available_local_models s) \<longrightarrow>
                \<not> truthy (fst (generate_local_response cfg ext s message model ctx mt))"
    and "fallback_to_api cfg" and "openai_client s \<noteq> None"
  shows "fst (generate_response cfg ext s message model_hint ctx mt) =
           Inr (case openai_create ext (openai_model cfg) (chat_messages message ctx)
                       (int_or mt (openai_max_tokens cfg)) of
                  Inl e \<Rightarrow> generation_error e
                | Inr [] \<Rightarrow> generation_error ''list index out of range''
                | Inr (Some c # rest) \<Rightarrow> c
                | Inr (None # rest) \<Rightarrow> no_content_apology) \<and>
         filter (\<lambda>c. \<not> is_ollama_call c)
             (calls (snd (generate_response cfg ext s message model_hint ctx mt))) =
           filter (\<lambda>c. \<not> is_ollama_call c) (calls s) @
             [OpenAICreate (openai_model cfg) (chat_messages message ctx)
                (int_or mt (openai_max_tokens cfg))]"
proof -
  define attempt where "attempt =
    (if model \<in> set (available_local_models s)
     then generate_local_response cfg ext s message model ctx mt else (None, s))"
  obtain response s1 where att: "attempt = (response, s1)" by (cases attempt)
  have falsy: "\<not> truthy response"
    using fails att by (auto simp: attempt_def truthy_def split: if_splits)
  have client: "openai_client s1 \<noteq> None"
    using att assms(7) generate_local_response_clients [of cfg ext s message model ctx mt]
    by (auto simp: attempt_def split: if_splits)
  have log: "filter (\<lambda>c. \<not> is_ollama_call c) (calls s1) =
      filter (\<lambda>c. \<not> is_ollama_call c) (calls s)"
    using att generate_local_response_openai_calls [of cfg ext s message model ctx mt]
    by (auto simp: attempt_def split: if_splits)
  have "dispatch cfg ext s message model ctx mt =
      caught (generate_openai_response cfg ext s1 message (openai_model cfg) ctx mt)"
    using dispatch_local_first [OF assms(3,4), of ext message ctx mt] att falsy client assms(6)
    by (simp add: attempt_def [symmetric])
  then show ?thesis
    using log
    by (simp add: generate_response_initialized [OF assms(1)] model [symmetric]
        generate_openai_response_result [OF client])
qed

text \<open>
  C1. \<open>generate_response\<close> can raise, and it can return the empty string. On a service
  that has not been initialised the lazy \<open>initialize\<close> raises the \<open>TypeError\<close> of
  \<open>system_event\<close>, before the \<open>try\<close> block, whatever the settings, the backends and the
  arguments are. On an initialised service with an OpenAI client, a completion whose
  content is the empty string is returned as it is: \<open>_generate_openai_response\<close> replaces
  only a missing content.
\<close>

theorem generate_response_raises_or_returns_empty:
  "fst (generate_response cfg ext new_ai_service message model_hint ctx max_tokens) =
     Inl (logger_error ext) \<and>
   fst (generate_response keyed_settings empty_content_backends remote_ready_service
          ''hello'' (Some ''gpt-4'') None None) = Inr []"
proof
  show "fst (generate_response cfg ext new_ai_service message model_hint ctx max_tokens) =
      Inl (logger_error ext)"
    by (simp add: generate_response_fresh new_ai_service_def)
next
  show "fst (generate_response keyed_settings empty_content_backends remote_ready_service
          ''hello'' (Some ''gpt-4'') None None) = Inr []"
    by code_simp
qed

text \<open>
  C2. With no API key, an unreachable Ollama server and a newly constructed service
  (no OpenAI client, no Ollama client, no local model), \<open>generate_response\<close> does not
  return the degraded-service sentence: the lazy \<open>initialize\<close> raises.
\<close>

theorem fresh_service_without_backends_raises:
  "openai_api_key default_settings = None \<and>
   openai_client new_ai_service = None \<and> ollama_client new_ai_service = None \<and>
   available_local_models new_ai_service = [] \<and>
   generate_response default_settings offline_backends new_ai_service ''hello''
       None None None =
     (Inl (logger_error offline_backends), new_ai_service)"
  by (simp add: generate_response_fresh new_ai_service_def default_settings_def)

text \<open>
  C3. With \<open>use_local_first\<close> and \<open>fallback_to_api\<close> set, an API key configured, a local
  model that is installed but whose every generation call fails, and a newly constructed
  service, \<open>generate_response\<close> for that local model does not return the remote
  backend's reply: the lazy \<open>initialize\<close> raises before any backend is called.
\<close>

theorem fresh_service_fallback_raises:
  "use_local_first keyed_settings \<and> fallback_to_api keyed_settings \<and>
   openai_api_key keyed_settings = Some ''sk-test'' \<and>
   generate_response keyed_settings failing_local_backends new_ai_service ''hello''
       (Some ''llama3.1:8b'') None None =
     (Inl (logger_error failing_local_backends), new_ai_service) \<and>
   calls new_ai_service = []"
  by (simp add: generate_response_fresh new_ai_service_def keyed_settings_def
      default_settings_def)

text \<open>
  C4 as stated fails: on an initialised service that has an Ollama client and one local
  model but no OpenAI client, with \<open>use_local_first\<close> off and the hint \<open>gpt-4\<close>, the
  dispatch reaches the last-resort branch and calls the first local model.
\<close>

theorem remote_hint_reaches_local_backend:
  "use_local_first remote_only_settings = False \<and> is_openai_model ''gpt-4'' \<and>
   generate_response remote_only_settings local_only_backends local_ready_service
       ''hi'' (Some ''gpt-4'') None None =
     (Inr ''reply of llama3.1:8b'',
      local_ready_service\<lparr>calls :=
        [OllamaGenerate ''llama3.1:8b'' (''User: hi'' @ [CHR 0x0A] @ ''Assistant:'') 1000]\<rparr>)"
  by code_simp

text \<open>
  C4 (amended). When \<open>use_local_first\<close> is false, the supplied model identifier
  classifies as remote and an OpenAI client is configured, \<open>generate_response\<close> never
  invokes the local backend; on an initialised service it issues exactly one request, to
  the remote backend with the supplied identifier. (A service that is not initialised
  is covered too: the call then ends before any request is made.)
\<close>

theorem remote_hint_never_local:
  assumes "\<not> use_local_first cfg" and "is_openai_model m"
    and "ai_is_initialized s0 \<longrightarrow> openai_client s0 \<noteq> None"
  shows "filter is_ollama_call
           (calls (snd (generate_response cfg ext s0 message (Some m) ctx mt))) =
           filter is_ollama_call (calls s0) \<and>
         (ai_is_initialized s0 \<longrightarrow>
            calls (snd (generate_response cfg ext s0 message (Some m) ctx mt)) =
              calls s0 @ [OpenAICreate m (chat_messages message ctx)
                            (int_or mt (openai_max_tokens cfg))])"
proof (cases "ai_is_initialized s0")
  case False
  then show ?thesis by (simp add: generate_response_fresh)
next
  case True
  have ne: "m \<noteq> []" using assms(2) by (auto simp: is_openai_model_def)
  have model: "resolve_model cfg s0 message (Some m) = m"
    using ne by (simp add: resolve_model_def truthy_def)
  have client: "openai_client s0 \<noteq> None" using assms(3) True by simp
  have "dispatch cfg ext s0 message m ctx mt =
      caught (generate_openai_response cfg ext s0 message m ctx mt)"
    using dispatch_remote [OF _ client assms(2)] assms(1) by simp
  then show ?thesis
    using True
    by (simp add: generate_response_initialized model
        generate_openai_response_result [OF client])
qed

theorem remote_hint_never_local_witness:
  "\<not> use_local_first (keyed_settings\<lparr>use_local_first := False\<rparr>) \<and> is_openai_model ''gpt-4'' \<and>
   ai_is_initialized hybrid_ready_service \<and> openai_client hybrid_ready_service \<noteq> None \<and>
   filter is_ollama_call (calls (snd (generate_response
      (keyed_settings\<lparr>use_local_first := False\<rparr>) failing_local_backends
      hybrid_ready_service ''hi'' (Some ''gpt-4'') None None))) = [] \<and>
   calls (snd (generate_response (keyed_settings\<lparr>use_local_first := False\<rparr>)
      failing_local_backends hybrid_ready_service ''hi'' (Some ''gpt-4'') None None)) =
     [OpenAICreate ''gpt-4''
        [(''system'', ''You are a helpful personal assistant named Ruby.''), (''user'', ''hi'')]
        1000]"
proof -
  let ?cfg = "keyed_settings\<lparr>use_local_first := False\<rparr>"
  have h1: "\<not> use_local_first ?cfg" by simp
  have h2: "is_openai_model ''gpt-4''" by (simp add: is_openai_model_def)
  have init: "ai_is_initialized hybrid_ready_service"
    by (simp add: hybrid_ready_service_def)
  have client: "openai_client hybrid_ready_service \<noteq> None"
    by (simp add: hybrid_ready_service_def)
  have h3: "ai_is_initialized hybrid_ready_service \<longrightarrow>
      openai_client hybrid_ready_service \<noteq> None"
    using client by simp
  have vals: "openai_max_tokens ?cfg = 1000" "calls hybrid_ready_service = []"
    by (simp_all add: keyed_settings_def default_settings_def hybrid_ready_service_def)
  show ?thesis
    using remote_hint_never_local [OF h1 h2 h3, of failing_local_backends "''hi''" None None]
      h1 h2 init client
    by (simp add: vals chat_messages_def history_of_def int_or_def)
qed

section \<open>Properties of the task scheduler\<close>

lemma schedule_accepted:
  assumes "accepted lib task_id c"
  shows "schedule lib now s task_id c =
     (True,
      s\<lparr>scheduler :=
          (if running (scheduler s)
           then (scheduler s)\<lparr>job_store :=
                  AList.update task_id (trigger_of c) (job_store (scheduler s))\<rparr>
           else (scheduler s)\<lparr>pending_jobs :=
                  pending_jobs (scheduler s) @ [(task_id, trigger_of c)]\<rparr>),
        active_tasks := AList.update task_id (task_record now c) (active_tasks s)\<rparr>)"
  using assms
  by (cases c)
     (simp_all add: accepted_def schedule_cron_task_def schedule_interval_task_def
        schedule_one_time_task_def add_job_def)

lemma filter_key_update:
  "distinct (map fst al) \<Longrightarrow>
     filter (\<lambda>e. fst e = k) (AList.update k v al) = [(k, v)]"
proof (induction al)
  case Nil
  then show ?case by simp
next
  case (Cons p ps)
  show ?case
  proof (cases "fst p = k")
    case True
    then have "k \<notin> fst ` set ps" using Cons.prems by auto
    then have "filter (\<lambda>e. fst e = k) ps = []" by (auto simp: filter_empty_conv)
    with True show ?thesis by simp
  next
    case False
    then show ?thesis using Cons by simp
  qed
qed

lemma key_not_in_delete: "k \<notin> fst ` set (AList.delete k al)"
  by (auto simp: AList.delete_eq)

lemma schedule_distinct:
  "distinct (map fst (active_tasks s)) \<Longrightarrow>
     distinct (map fst (active_tasks (snd (schedule lib now s task_id c))))"
  by (cases c)
     (auto simp: schedule_cron_task_def schedule_interval_task_def schedule_one_time_task_def
        AList.distinct_update split: option.splits sum.splits)

lemma scheduled_job_can_be_removed:
  assumes "accepted lib task_id c"
  shows "\<exists>sch. remove_job (scheduler (snd (schedule lib now s task_id c))) task_id = Inr sch"
  by (simp add: schedule_accepted [OF assms] remove_job_def AList.dom_update)

text \<open>
  C8. After a scheduling call for the id \<open>X\<close> that the library accepts (of any of the
  three trigger kinds), \<open>cancel_task X\<close> succeeds and leaves no entry for \<open>X\<close> in the
  listing returned by \<open>get_scheduled_tasks\<close>; and a second accepted scheduling call for
  \<open>X\<close> (again of any kind) leaves exactly one entry for \<open>X\<close>, holding the metadata of
  the second call. Both calls return \<open>True\<close>.
\<close>

theorem schedule_cancel_reschedule:
  assumes wf: "distinct (map fst (active_tasks s))"
    and first: "accepted lib X c1"
    and s1: "s1 = snd (schedule lib now1 s X c1)"
    and second: "accepted lib X c2"
  shows "fst (schedule lib now1 s X c1) \<and>
         fst (cancel_task s1 X) \<and>
         X \<notin> fst ` set (listed_active_tasks (get_scheduled_tasks (snd (cancel_task s1 X)))) \<and>
         fst (schedule lib now2 s1 X c2) \<and>
         filter (\<lambda>e. fst e = X)
           (listed_active_tasks (get_scheduled_tasks (snd (schedule lib now2 s1 X c2)))) =
           [(X, task_record now2 c2)]"
proof -
  have ok1: "fst (schedule lib now1 s X c1)"
    by (simp add: schedule_accepted [OF first])
  obtain sch where removed: "remove_job (scheduler s1) X = Inr sch"
    using scheduled_job_can_be_removed [OF first, of now1 s] unfolding s1 by blast
  have in_tasks: "X \<in> fst ` set (active_tasks s1)"
    by (simp add: s1 schedule_accepted [OF first] AList.dom_update)
  have cancelled: "fst (cancel_task s1 X)"
    by (simp add: cancel_task_def removed Let_def)
  have gone: "X \<notin> fst ` set (listed_active_tasks (get_scheduled_tasks (snd (cancel_task s1 X))))"
    using in_tasks
    by (simp add: cancel_task_def removed get_scheduled_tasks_def Let_def key_not_in_delete)
  have ok2: "fst (schedule lib now2 s1 X c2)"
    by (simp add: schedule_accepted [OF second])
  have d1: "distinct (map fst (active_tasks s1))"
    unfolding s1 by (rule schedule_distinct [OF wf])
  have one: "filter (\<lambda>e. fst e = X)
      (listed_active_tasks (get_scheduled_tasks (snd (schedule lib now2 s1 X c2)))) =
      [(X, task_record now2 c2)]"
    by (simp add: get_scheduled_tasks_def schedule_accepted [OF second]
        filter_key_update [OF d1])
  show ?thesis using ok1 cancelled gone ok2 one by simp
qed

text \<open>
  The three instances below take each trigger kind once as the first and once as the
  second call, on a stopped and on a running scheduler.
\<close>

theorem schedule_cancel_reschedule_witness:
  "(distinct (map fst (active_tasks new_task_scheduler)) \<and>
    accepted strict_lib ''X'' (IntervalCall ''first'' [(''minutes'', 5)]) \<and>
    accepted strict_lib ''X'' (OneTimeCall ''2030-01-01T09:00:00'' ''second'') \<and>
    ''X'' \<notin> fst ` set (listed_active_tasks (get_scheduled_tasks (snd (cancel_task
        (snd (schedule strict_lib ''t1'' new_task_scheduler ''X''
                (IntervalCall ''first'' [(''minutes'', 5)]))) ''X'')))) \<and>
    filter (\<lambda>e. fst e = ''X'')
      (listed_active_tasks (get_scheduled_tasks (snd (schedule strict_lib ''t2''
         (snd (schedule strict_lib ''t1'' new_task_scheduler ''X''
                 (IntervalCall ''first'' [(''minutes'', 5)])))
         ''X'' (OneTimeCall ''2030-01-01T09:00:00'' ''second''))))) =
      [(''X'', [(''type'', JStr ''one_time''), (''run_date'', JStr ''2030-01-01T09:00:00''),
                (''description'', JStr ''second''), (''created'', JStr ''t2'')])]) \<and>
   (distinct (map fst (active_tasks started_task_scheduler)) \<and>
    accepted strict_lib ''X'' (OneTimeCall ''2030-01-01T09:00:00'' ''first'') \<and>
    accepted strict_lib ''X'' (CronCall ''0 9 * * *'' ''second'') \<and>
    ''X'' \<notin> fst ` set (listed_active_tasks (get_scheduled_tasks (snd (cancel_task
        (snd (schedule strict_lib ''t1'' started_task_scheduler ''X''
                (OneTimeCall ''2030-01-01T09:00:00'' ''first''))) ''X'')))) \<and>
    filter (\<lambda>e. fst e = ''X'')
      (listed_active_tasks (get_scheduled_tasks (snd (schedule strict_lib ''t2''
         (snd (schedule strict_lib ''t1'' started_task_scheduler ''X''
                 (OneTimeCall ''2030-01-01T09:00:00'' ''first'')))
         ''X'' (CronCall ''0 9 * * *'' ''second''))))) =
      [(''X'', [(''type'', JStr ''cron''), (''expression'', JStr ''0 9 * * *''),
                (''description'', JStr ''second''), (''created'', JStr ''t2'')])]) \<and>
   (accepted strict_lib ''system_health_check'' (CronCall ''0 9 * * *'' ''first'') \<and>
    accepted strict_lib ''system_health_check'' (IntervalCall ''second'' [(''hours'', 1)]) \<and>
    ''system_health_check'' \<notin> fst ` set (listed_active_tasks (get_scheduled_tasks
       (snd (cancel_task
        (snd (schedule strict_lib ''t1'' started_task_scheduler ''system_health_check''
                (CronCall ''0 9 * * *'' ''first''))) ''system_health_check'')))) \<and>
    filter (\<lambda>e. fst e = ''system_health_check'')
      (listed_active_tasks (get_scheduled_tasks (snd (schedule strict_lib ''t2''
         (snd (schedule strict_lib ''t1'' started_task_scheduler ''system_health_check''
                 (CronCall ''0 9 * * *'' ''first'')))
         ''system_health_check'' (IntervalCall ''second'' [(''hours'', 1)]))))) =
      [(''system_health_check'',
        [(''type'', JStr ''interval''), (''interval'', JDict [(''hours'', JInt 1)]),
         (''description'', JStr ''second''), (''created'', JStr ''t2'')])])"
proof -
  have d0: "distinct (map fst (active_tasks new_task_scheduler))" by code_simp
  have d1: "distinct (map fst (active_tasks started_task_scheduler))" by code_simp
  have a1: "accepted strict_lib ''X'' (IntervalCall ''first'' [(''minutes'', 5)])"
    by code_simp
  have a2: "accepted strict_lib ''X'' (OneTimeCall ''2030-01-01T09:00:00'' ''second'')"
    by code_simp
  have a3: "accepted strict_lib ''X'' (OneTimeCall ''2030-01-01T09:00:00'' ''first'')"
    by code_simp
  have a4: "accepted strict_lib ''X'' (CronCall ''0 9 * * *'' ''second'')"
    by code_simp
  have a5: "accepted strict_lib ''system_health_check'' (CronCall ''0 9 * * *'' ''first'')"
    by code_simp
  have a6: "accepted strict_lib ''system_health_check''
      (IntervalCall ''second'' [(''hours'', 1)])"
    by code_simp
  show ?thesis
    using schedule_cancel_reschedule [OF d0 a1 refl a2, of "''t1''" "''t2''"]
      schedule_cancel_reschedule [OF d1 a3 refl a4, of "''t1''" "''t2''"]
      schedule_cancel_reschedule [OF d1 a5 refl a6, of "''t1''" "''t2''"]
      d0 d1 a1 a2 a3 a4 a5 a6
    by simp
qed

section \<open>Properties of the file service\<close>

lemma not_allowed_when_disabled:
  "\<not> allow_file_operations cfg \<Longrightarrow> is_directory_allowed cfg os svc directory = Inr False"
  by (simp add: is_directory_allowed_def)

lemma not_allowed_outside_roots:
  assumes "resolve os directory = Inr resolved"
    and "\<forall>allowed \<in> set (svc_allowed_directories svc). \<not> is_relative_to resolved allowed"
  shows "is_directory_allowed cfg os svc directory = Inr False"
  using assms by (auto simp: is_directory_allowed_def list_ex_iff)

lemma organize_directory_refused:
  assumes "is_directory_allowed cfg os svc (Path directory_path) = Inr False"
  shows "organize_directory cfg os svc fs directory_path create_subdirs =
     (Inr [(''success'', JBool False),
           (''error'', JStr (''Directory '' @ directory_path @
                             '' is not in the allowed directories list''))], fs)"
  unfolding organize_directory_def Let_def assms by simp

lemma find_duplicates_refused:
  assumes "is_directory_allowed cfg os svc (Path directory_path) = Inr False"
  shows "find_duplicates cfg os svc fs directory_path =
     Inr [(''success'', JBool False), (''error'', JStr ''Directory not allowed'')]"
  unfolding find_duplicates_def Let_def assms by simp

lemma search_files_refused:
  assumes "is_directory_allowed cfg os svc (Path directory_path) = Inr False"
  shows "search_files cfg os svc fs directory_path pattern include_content =
     Inr [(''success'', JBool False), (''error'', JStr ''Directory not allowed'')]"
  unfolding search_files_def Let_def assms by simp

text \<open>
  When \<open>resolve\<close> returns, a directory under none of the allowed roots is refused and
  the file system is left as it was.
\<close>

lemma organize_directory_outside_roots:
  assumes "resolve os (Path directory_path) = Inr resolved"
    and "\<forall>allowed \<in> set (svc_allowed_directories svc). \<not> is_relative_to resolved allowed"
  shows "success_of (fst (organize_directory cfg os svc fs directory_path create_subdirs)) =
           Some (JBool False) \<and>
         snd (organize_directory cfg os svc fs directory_path create_subdirs) = fs"
  by (simp add: organize_directory_refused [OF not_allowed_outside_roots [OF assms]])

text \<open>
  C9. The claim is that \<open>organize_directory\<close> returns \<open>success\<close> false, and changes
  nothing, for every directory path outside the allowed roots. When file operations are
  allowed and \<open>Path.resolve()\<close> raises on the path, the exception leaves
  \<open>organize_directory\<close> (the permission check stands before the \<open>try\<close>): no result
  dictionary is returned. The file system is not touched.
\<close>

theorem organize_directory_raises_when_resolve_raises:
  assumes "allow_file_operations cfg"
    and "resolve os (Path directory_path) = Inl e"
  shows "organize_directory cfg os svc fs directory_path create_subdirs = (Inl e, fs) \<and>
         success_of (fst (organize_directory cfg os svc fs directory_path create_subdirs)) =
           None"
  using assms by (simp add: organize_directory_def is_directory_allowed_def)

text \<open>
  The instance: the path \<open>/tmp/\<close>NUL\<open>x\<close>, which is under none of the default roots,
  with the default settings. \<open>Path.resolve()\<close> raises a \<open>ValueError\<close> on the NUL
  character.
\<close>

theorem organize_directory_raises_on_nul_path:
  "allow_file_operations default_settings \<and>
   resolve plain_os (Path nul_path) = Inl ''embedded null byte'' \<and>
   \<not> list_ex (\<lambda>allowed. is_relative_to (Path nul_path) allowed)
       (svc_allowed_directories (new_file_service default_settings)) \<and>
   organize_directory default_settings plain_os (new_file_service default_settings)
     home_fs nul_path True = (Inl ''embedded null byte'', home_fs) \<and>
   success_of (fst (organize_directory default_settings plain_os
                      (new_file_service default_settings) home_fs nul_path True)) = None"
proof -
  have h1: "allow_file_operations default_settings" by code_simp
  have h2: "resolve plain_os (Path nul_path) = Inl ''embedded null byte''" by code_simp
  have outside: "\<not> list_ex (\<lambda>allowed. is_relative_to (Path nul_path) allowed)
      (svc_allowed_directories (new_file_service default_settings))"
    by code_simp
  show ?thesis
    using organize_directory_raises_when_resolve_raises
      [OF h1 h2, of "new_file_service default_settings" home_fs True] h1 h2 outside
    by simp
qed

text \<open>
  C10. When \<open>allow_file_operations\<close> is false, each of \<open>organize_directory\<close>,
  \<open>find_duplicates\<close> and \<open>search_files\<close> returns a result whose \<open>success\<close> is false,
  for every directory path, whatever the allowed roots are; none of them raises.
\<close>

theorem file_operations_disabled:
  assumes "\<not> allow_file_operations cfg"
  shows "success_of (fst (organize_directory cfg os svc fs directory_path create_subdirs)) =
           Some (JBool False) \<and>
         success_of (find_duplicates cfg os svc fs directory_path) = Some (JBool False) \<and>
         success_of (search_files cfg os svc fs directory_path pattern include_content) =
           Some (JBool False)"
  using not_allowed_when_disabled [OF assms, of os svc "Path directory_path"]
  by (simp add: organize_directory_refused find_duplicates_refused search_files_refused)

theorem file_operations_disabled_witness:
  "\<not> allow_file_operations (default_settings\<lparr>allow_file_operations := False\<rparr>) \<and>
   resolve plain_os (Path ''/home/user/Documents'') = Inr (Path ''/home/user/Documents'') \<and>
   list_ex (\<lambda>allowed. is_relative_to (Path ''/home/user/Documents'') allowed)
     (svc_allowed_directories (new_file_service default_settings)) \<and>
   success_of (fst (organize_directory (default_settings\<lparr>allow_file_operations := False\<rparr>)
                      plain_os (new_file_service default_settings) home_fs
                      ''/home/user/Documents'' True)) = Some (JBool False) \<and>
   success_of (find_duplicates (default_settings\<lparr>allow_file_operations := False\<rparr>)
                 plain_os (new_file_service default_settings) home_fs
                 ''/home/user/Documents'') = Some (JBool False) \<and>
   success_of (search_files (default_settings\<lparr>allow_file_operations := False\<rparr>)
                 plain_os (new_file_service default_settings) home_fs
                 ''/home/user/Documents'' ''a'' False) = Some (JBool False)"
proof -
  have h: "\<not> allow_file_operations (default_settings\<lparr>allow_file_operations := False\<rparr>)"
    by simp
  have inside: "resolve plain_os (Path ''/home/user/Documents'') =
      Inr (Path ''/home/user/Documents'') \<and>
    list_ex (\<lambda>allowed. is_relative_to (Path ''/home/user/Documents'') allowed)
      (svc_allowed_directories (new_file_service default_settings))"
    by code_simp
  show ?thesis
    using file_operations_disabled [OF h, of plain_os "new_file_service default_settings"
        home_fs "''/home/user/Documents''" True "''a''" False] inside
    by simp
qed

section \<open>Properties of the persona and the orchestrator\<close>

lemma startswith_append: "startswith (p @ s) p"
  by (induction p) simp_all

lemma str_in_append: "str_in sub (pre @ sub @ post)"
proof (induction pre)
  case Nil
  show ?case
  proof (cases "sub @ post")
    case Nil
    then show ?thesis by simp
  next
    case (Cons c cs)
    have "startswith (sub @ post) sub" by (rule startswith_append)
    then show ?thesis using Cons by simp
  qed
next
  case (Cons c pre)
  then show ?case by simp
qed

lemma name_in_greeting: "str_in assistant_name (generic_greeting assistant_name)"
  unfolding generic_greeting_def by (rule str_in_append)

lemma join_starts_with_first: "startswith (join sep (x # xs)) x"
proof (cases xs)
  case Nil
  then show ?thesis using startswith_append [of x "[]"] by simp
next
  case (Cons y ys)
  then show ?thesis using startswith_append [of x "sep @ join sep (y # ys)"] by simp
qed

lemma greeting_not_empty: "generic_greeting assistant_name \<noteq> []"
  by (simp add: generic_greeting_def)

lemma load_instructions_missing:
  assumes "\<not> truthy (instructions_file (config a)) \<or>
           \<not> path_exists wd fs (Path (str_of (instructions_file (config a))))"
  shows "load_instructions wd fs a = a\<lparr>instructions := generic_greeting (name a)\<rparr>"
  using assms by (auto simp: load_instructions_def Let_def)

lemma prompt_starts_with_instructions:
  assumes "build_context_prompt a message ctx = Inr prompt" and "instructions a \<noteq> []"
  shows "startswith prompt (instructions a)"
proof (cases "conversation_history ctx \<noteq> []")
  case True
  then obtain hist where
    "prompt = join [CHR 0x0A, CHR 0x0A] (instructions a #
       ((if capabilities a \<noteq> []
         then [''Available capabilities:'' @ [CHR 0x0A] @ render_items (capabilities a)]
         else []) @
        (if personality_traits a \<noteq> []
         then [''Personality traits to embody:'' @ [CHR 0x0A] @
               render_items (personality_traits a)]
         else []) @ [''Recent conversation context:''] @ hist @
        [''---'', ''Current user message: '' @ message,
         ''Please respond as '' @ name a @
           '', following all instructions and embodying the personality traits above.'']))"
    using assms by (auto simp: build_context_prompt_def Let_def split: sum.splits)
  then show ?thesis by (simp only: join_starts_with_first)
next
  case False
  then have
    "prompt = join [CHR 0x0A, CHR 0x0A] (instructions a #
       ((if capabilities a \<noteq> []
         then [''Available capabilities:'' @ [CHR 0x0A] @ render_items (capabilities a)]
         else []) @
        (if personality_traits a \<noteq> []
         then [''Personality traits to embody:'' @ [CHR 0x0A] @
               render_items (personality_traits a)]
         else []) @
        [''---'', ''Current user message: '' @ message,
         ''Please respond as '' @ name a @
           '', following all instructions and embodying the personality traits above.'']))"
    using assms by (auto simp: build_context_prompt_def Let_def)
  then show ?thesis by (simp only: join_starts_with_first)
qed

text \<open>
  \<open>initialize\<close> raises at its first statement on every orchestrator that is not marked
  initialized, and so does \<open>process_message\<close>; nothing is changed.
\<close>

lemma initialize_raises:
  "\<not> is_initialized orch \<Longrightarrow> initialize w orch = (Some (w_logger_error w), orch)"
  by (simp add: initialize_def system_event_def)

lemma process_message_raises:
  "\<not> is_initialized orch \<Longrightarrow>
     orchestrator_process_message w orch assistant_name message ctx =
       (Inl (w_logger_error w), orch)"
  by (simp add: orchestrator_process_message_def initialize_raises)

text \<open>
  The routing itself: on an orchestrator marked initialized, a name whose lower-cased
  form is not registered gets the envelope with \<open>error\<close> set that lists the registered
  names, and the orchestrator is left as it was (no persona is invoked, no generation
  request issued).
\<close>

lemma unknown_persona_rejected_when_initialized:
  assumes "is_initialized orch"
    and "lower assistant_name \<notin> fst ` set (assistants orch)"
  shows "orchestrator_process_message w orch assistant_name message ctx =
           (Inr [(''message'',
                    JStr (''Assistant '' @ [CHR 0x27] @ lower assistant_name @ [CHR 0x27] @
                          '' not found. Available: '' @ join '', '' (map fst (assistants orch)))),
                 (''assistant'', JStr ''system''),
                 (''error'', JBool True)], orch)"
proof -
  have none: "map_of (assistants orch) (lower assistant_name) = None"
    using assms(2) by (simp add: map_of_eq_None_iff)
  show ?thesis
    unfolding orchestrator_process_message_def using assms(1) by (simp add: Let_def none)
qed

text \<open>
  C7 as stated fails. With the instructions file missing, Ruby on the AI service the
  program constructs returns the error envelope of the \<open>except\<close> branch (the service
  raises the \<open>TypeError\<close> of \<open>system_event\<close>), with the fixed apology as message. On a
  service marked initialized by hand and without a backend, the envelope is the success
  envelope, and its message is the degraded-service sentence of the AI service. Neither
  message contains the persona's name.
\<close>

theorem missing_instructions_message_without_name:
  "\<not> path_exists [''home'', ''user''] []
       (Path (str_of (instructions_file (config initialized_ruby)))) \<and>
   fst (process_message (crystal_generate offline_world) [''home'', ''user''] []
          ''2024-01-01T00:00:00'' initialized_ruby (Some new_ai_service) ''hello''
          \<lparr>conversation_history = []\<rparr>) =
     Inr [(''message'', JStr processing_apology),
          (''actions'', JList [JStr ''error_occurred'']),
          (''metadata'', JDict
             [(''assistant'', JStr ''ruby''),
              (''error'', JStr (logger_error offline_backends)),
              (''processing_time'', JStr ''2024-01-01T00:00:00'')])] \<and>
   \<not> str_in (name initialized_ruby) processing_apology \<and>
   fst (process_message (crystal_generate offline_world) [''home'', ''user''] []
          ''2024-01-01T00:00:00'' initialized_ruby (Some idle_ready_service) ''hello''
          \<lparr>conversation_history = []\<rparr>) =
     Inr [(''message'', JStr degraded_message),
          (''actions'', JList [JStr ''message_processed'']),
          (''metadata'', JDict
             [(''assistant'', JStr ''ruby''),
              (''instructions_version'', JInt 52),
              (''capabilities_used'',
                 JList [JStr ''schedule_management'', JStr ''file_organization'',
                        JStr ''task_automation'', JStr ''system_monitoring'',
                        JStr ''general_assistance'']),
              (''processing_time'', JStr ''2024-01-01T00:00:00'')])] \<and>
   \<not> str_in (name initialized_ruby) degraded_message"
  by code_simp

text \<open>
  C7 (amended). When the instructions file is unconfigured or does not exist, and the
  prompt can be assembled (every retained history entry is a dictionary),
  \<open>process_message\<close> keeps the generic greeting, which contains the persona's name, as
  the instruction text and puts it first in the prompt handed to the AI service. When
  the service returns a text, the envelope is the success envelope: its message is that
  text, stripped, its action is \<open>message_processed\<close> and its metadata have no \<open>error\<close>
  entry. When the service raises, the envelope is the error envelope with the fixed
  apology. The message need not contain the persona's name.
\<close>

theorem missing_instructions_greeting_is_prompt:
  assumes missing: "\<not> truthy (instructions_file (config a)) \<or>
                    \<not> path_exists wd fs (Path (str_of (instructions_file (config a))))"
    and prompt: "build_context_prompt (a\<lparr>instructions := generic_greeting (name a)\<rparr>)
                   message ctx = Inr full_prompt"
    and reply: "generate ai full_prompt
                  (Some (case preferred_model (config a) of
                           Some m \<Rightarrow> m | None \<Rightarrow> default_preferred_model))
                  (Some ctx) = (outcome, ai')"
  shows "process_message generate wd fs now a ai message ctx =
           (Inr (case outcome of
                   Inr ai_response \<Rightarrow>
                     [(''message'', JStr (strip ai_response)),
                      (''actions'', JList [JStr ''message_processed'']),
                      (''metadata'', JDict
                         [(''assistant'', JStr (lower (name a))),
                          (''instructions_version'',
                             JInt (int (length (generic_greeting (name a))))),
                          (''capabilities_used'',
                             JList (map (\<lambda>(k, v). JStr k) (capabilities a))),
                          (''processing_time'', JStr now)])]
                 | Inl e \<Rightarrow>
                     [(''message'', JStr processing_apology),
                      (''actions'', JList [JStr ''error_occurred'']),
                      (''metadata'', JDict
                         [(''assistant'', JStr (lower (name a))),
                          (''error'', JStr e),
                          (''processing_time'', JStr now)])]),
            a\<lparr>instructions := generic_greeting (name a)\<rparr>, ai') \<and>
         str_in (name a) (generic_greeting (name a)) \<and>
         startswith full_prompt (generic_greeting (name a))"
proof -
  define a1 where "a1 = a\<lparr>instructions := generic_greeting (name a)\<rparr>"
  have loaded: "load_instructions wd fs a = a1"
    unfolding a1_def by (rule load_instructions_missing [OF missing])
  have prompt1: "build_context_prompt a1 message ctx = Inr full_prompt"
    using prompt by (simp add: a1_def)
  have cfg1: "config a1 = config a" by (simp add: a1_def)
  have starts: "startswith full_prompt (generic_greeting (name a))"
    using prompt_starts_with_instructions [OF prompt1] greeting_not_empty
    by (simp add: a1_def)
  have unfolded: "process_message generate wd fs now a ai message ctx =
      (case (outcome, ai') of
         (Inr ai_response, ai') \<Rightarrow>
           (Inr [(''message'', JStr (strip ai_response)),
                 (''actions'', JList [JStr ''message_processed'']),
                 (''metadata'', JDict
                    [(''assistant'', JStr (lower (name a1))),
                     (''instructions_version'', JInt (int (length (instructions a1)))),
                     (''capabilities_used'', JList (map (\<lambda>(k, v). JStr k) (capabilities a1))),
                     (''processing_time'', JStr now)])],
            a1, ai')
       | (Inl e, ai') \<Rightarrow>
           (Inr [(''message'', JStr processing_apology),
                 (''actions'', JList [JStr ''error_occurred'']),
                 (''metadata'', JDict
                    [(''assistant'', JStr (lower (name a1))),
                     (''error'', JStr e),
                     (''processing_time'', JStr now)])],
            a1, ai'))"
    unfolding process_message_def Let_def loaded
    by (simp add: prompt1 cfg1 reply)
  show ?thesis
  proof (cases outcome)
    case (Inl e)
    then show ?thesis
      using unfolded starts by (simp add: a1_def name_in_greeting)
  next
    case (Inr ai_response)
    then show ?thesis
      using unfolded starts by (simp add: a1_def name_in_greeting)
  qed
qed

text \<open>
  Two instances, Ruby without an instructions file and with one earlier exchange: on a
  service marked initialized that has no backend, and on the service as constructed.
\<close>

theorem missing_instructions_greeting_is_prompt_witness:
  "\<not> path_exists [''home'', ''user''] []
       (Path (str_of (instructions_file (config initialized_ruby)))) \<and>
   fst (crystal_generate offline_world (Some idle_ready_service)
          (projr (build_context_prompt
                    (initialized_ruby\<lparr>instructions := generic_greeting (name initialized_ruby)\<rparr>)
                    ''hello'' one_turn_context))
          (Some ''gpt-4o-mini'') (Some one_turn_context)) = Inr degraded_message \<and>
   fst (process_message (crystal_generate offline_world) [''home'', ''user''] []
          ''2024-01-01T00:00:00'' initialized_ruby (Some idle_ready_service) ''hello''
          one_turn_context) =
     Inr [(''message'', JStr degraded_message),
          (''actions'', JList [JStr ''message_processed'']),
          (''metadata'', JDict
             [(''assistant'', JStr ''ruby''),
              (''instructions_version'', JInt 52),
              (''capabilities_used'',
                 JList [JStr ''schedule_management'', JStr ''file_organization'',
                        JStr ''task_automation'', JStr ''system_monitoring'',
                        JStr ''general_assistance'']),
              (''processing_time'', JStr ''2024-01-01T00:00:00'')])] \<and>
   fst (process_message (crystal_generate offline_world) [''home'', ''user''] []
          ''2024-01-01T00:00:00'' initialized_ruby (Some new_ai_service) ''hello''
          one_turn_context) =
     Inr [(''message'', JStr processing_apology),
          (''actions'', JList [JStr ''error_occurred'']),
          (''metadata'', JDict
             [(''assistant'', JStr ''ruby''),
              (''error'', JStr (logger_error offline_backends)),
              (''processing_time'', JStr ''2024-01-01T00:00:00'')])] \<and>
   instructions (fst (snd (process_message (crystal_generate offline_world)
      [''home'', ''user''] [] ''2024-01-01T00:00:00'' initialized_ruby
      (Some idle_ready_service) ''hello'' one_turn_context))) =
     ''I am Ruby, your assistant. How can I help you today?'' \<and>
   startswith
     (projr (build_context_prompt
               (initialized_ruby\<lparr>instructions := generic_greeting (name initialized_ruby)\<rparr>)
               ''hello'' one_turn_context))
     ''I am Ruby, your assistant. How can I help you today?''"
proof -
  let ?a1 = "initialized_ruby\<lparr>instructions := generic_greeting (name initialized_ruby)\<rparr>"
  let ?prompt = "projr (build_context_prompt ?a1 ''hello'' one_turn_context)"
  let ?model = "Some (case preferred_model (config initialized_ruby) of
                        Some m \<Rightarrow> m | None \<Rightarrow> default_preferred_model)"
  let ?reply1 = "crystal_generate offline_world (Some idle_ready_service) ?prompt ?model
                   (Some one_turn_context)"
  let ?reply2 = "crystal_generate offline_world (Some new_ai_service) ?prompt ?model
                   (Some one_turn_context)"
  let ?r1 = "process_message (crystal_generate offline_world) [''home'', ''user''] []
               ''2024-01-01T00:00:00'' initialized_ruby (Some idle_ready_service) ''hello''
               one_turn_context"
  let ?r2 = "process_message (crystal_generate offline_world) [''home'', ''user''] []
               ''2024-01-01T00:00:00'' initialized_ruby (Some new_ai_service) ''hello''
               one_turn_context"
  have missing: "\<not> path_exists [''home'', ''user''] []
      (Path (str_of (instructions_file (config initialized_ruby))))"
    by code_simp
  then have h1: "\<not> truthy (instructions_file (config initialized_ruby)) \<or>
      \<not> path_exists [''home'', ''user''] []
          (Path (str_of (instructions_file (config initialized_ruby))))"
    by simp
  have h2: "build_context_prompt ?a1 ''hello'' one_turn_context = Inr ?prompt"
    by code_simp
  have h3: "?reply1 = (fst ?reply1, snd ?reply1)" by simp
  have h4: "?reply2 = (fst ?reply2, snd ?reply2)" by simp
  have model: "?model = Some ''gpt-4o-mini''" by code_simp
  have out1: "fst ?reply1 = Inr degraded_message" by code_simp
  have out2: "fst ?reply2 = Inl (logger_error offline_backends)" by code_simp
  have lit1: "[(''message'', JStr (strip degraded_message)),
               (''actions'', JList [JStr ''message_processed'']),
               (''metadata'', JDict
                  [(''assistant'', JStr (lower (name initialized_ruby))),
                   (''instructions_version'',
                      JInt (int (length (generic_greeting (name initialized_ruby))))),
                   (''capabilities_used'',
                      JList (map (\<lambda>(k, v). JStr k) (capabilities initialized_ruby))),
                   (''processing_time'', JStr ''2024-01-01T00:00:00'')])] =
              [(''message'', JStr degraded_message),
               (''actions'', JList [JStr ''message_processed'']),
               (''metadata'', JDict
                  [(''assistant'', JStr ''ruby''),
                   (''instructions_version'', JInt 52),
                   (''capabilities_used'',
                      JList [JStr ''schedule_management'', JStr ''file_organization'',
                             JStr ''task_automation'', JStr ''system_monitoring'',
                             JStr ''general_assistance'']),
                   (''processing_time'', JStr ''2024-01-01T00:00:00'')])]"
    by code_simp
  have low: "lower (name initialized_ruby) = ''ruby''" by code_simp
  have greeting: "generic_greeting (name initialized_ruby) =
      ''I am Ruby, your assistant. How can I help you today?''"
    by code_simp
  note t1 = missing_instructions_greeting_is_prompt
    [where generate = "crystal_generate offline_world" and ai = "Some idle_ready_service"
       and now = "''2024-01-01T00:00:00''", OF h1 h2 h3]
  note t2 = missing_instructions_greeting_is_prompt
    [where generate = "crystal_generate offline_world" and ai = "Some new_ai_service"
       and now = "''2024-01-01T00:00:00''", OF h1 h2 h4]
  have e1: "fst ?r1 =
     Inr [(''message'', JStr degraded_message),
          (''actions'', JList [JStr ''message_processed'']),
          (''metadata'', JDict
             [(''assistant'', JStr ''ruby''),
              (''instructions_version'', JInt 52),
              (''capabilities_used'',
                 JList [JStr ''schedule_management'', JStr ''file_organization'',
                        JStr ''task_automation'', JStr ''system_monitoring'',
                        JStr ''general_assistance'']),
              (''processing_time'', JStr ''2024-01-01T00:00:00'')])]"
    using arg_cong [OF conjunct1 [OF t1], of fst]
    unfolding out1 sum.case fst_conv lit1 .
  have e2: "fst ?r2 =
     Inr [(''message'', JStr processing_apology),
          (''actions'', JList [JStr ''error_occurred'']),
          (''metadata'', JDict
             [(''assistant'', JStr ''ruby''),
              (''error'', JStr (logger_error offline_backends)),
              (''processing_time'', JStr ''2024-01-01T00:00:00'')])]"
    using arg_cong [OF conjunct1 [OF t2], of fst]
    unfolding out2 sum.case fst_conv low .
  have ins: "instructions (fst (snd ?r1)) =
      ''I am Ruby, your assistant. How can I help you today?''"
    using arg_cong [OF conjunct1 [OF t1], of "\<lambda>r. instructions (fst (snd r))"]
    by (simp add: greeting)
  have starts: "startswith ?prompt ''I am Ruby, your assistant. How can I help you today?''"
    using conjunct2 [OF conjunct2 [OF t1]] unfolding greeting .
  have out1': "fst (crystal_generate offline_world (Some idle_ready_service) ?prompt
      (Some ''gpt-4o-mini'') (Some one_turn_context)) = Inr degraded_message"
    using out1 unfolding model .
  show ?thesis using missing out1' e1 e2 ins starts by simp
qed

text \<open>
  C6. The claim is that an unregistered persona name gets the envelope with \<open>error\<close>
  set that lists the registered names. On the orchestrator as constructed, whatever the
  name, the message and the world, \<open>process_message\<close> raises the \<open>TypeError\<close> of the
  first \<open>system_event\<close> call of \<open>initialize\<close> and returns no envelope; the orchestrator
  is left as it was, so no persona is invoked.
\<close>

theorem unknown_persona_on_new_orchestrator_raises:
  "lower assistant_name \<notin> fst ` set (assistants new_orchestrator) \<and>
   orchestrator_process_message w new_orchestrator assistant_name message ctx =
     (Inl (w_logger_error w), new_orchestrator)"
proof -
  have fresh: "\<not> is_initialized new_orchestrator"
    by (simp add: new_orchestrator_def)
  have empty: "assistants new_orchestrator = []"
    by (simp add: new_orchestrator_def)
  show ?thesis
    using process_message_raises [OF fresh] by (simp add: empty)
qed

text \<open>
  C5. The claim is that every envelope returned by \<open>process_message\<close> of the
  orchestrator carries a non-empty message. The orchestrator as constructed returns no
  envelope at all: the call raises. On an orchestrator and an AI service marked
  initialized by hand, an empty completion of the remote backend passes through
  \<open>generate_response\<close>, the persona's \<open>strip\<close> and the orchestrator's
  \<open>response.get("message", "")\<close> unchanged: the envelope has an empty message and is not
  error-flagged.
\<close>

theorem envelope_with_empty_message:
  "fst (orchestrator_process_message empty_content_world new_orchestrator ''ruby'' ''hello''
          None) = Inl (w_logger_error empty_content_world) \<and>
   fst (orchestrator_process_message empty_content_world
          (ready_orchestrator remote_ready_service) ''ruby'' ''hello'' None) =
     Inr [(''message'', JStr []),
          (''assistant'', JStr ''ruby''),
          (''timestamp'', JStr ''2024-01-01T00:00:00''),
          (''actions_taken'', JList [JStr ''message_processed'']),
          (''metadata'', JDict
             [(''assistant'', JStr ''ruby''),
              (''instructions_version'', JInt 52),
              (''capabilities_used'',
                 JList [JStr ''schedule_management'', JStr ''file_organization'',
                        JStr ''task_automation'', JStr ''system_monitoring'',
                        JStr ''general_assistance'']),
              (''processing_time'', JStr ''2024-01-01T00:00:00'')])]"
  by code_simp

end
